theory Spec2Isabelle
  imports Complex_Main
begin

section \<open>Text layout and composition engine of the card generator\<close>

text \<open>
  The development embeds the text layout code of \<^verbatim>\<open>CardGenerator\<close>
  (\<^verbatim>\<open>wrapText\<close>, \<^verbatim>\<open>getTextPosition\<close>, \<^verbatim>\<open>getCanvasTextAlign\<close>,
  \<^verbatim>\<open>getCanvasTextBaseline\<close>, \<^verbatim>\<open>drawTextBackground\<close>, \<^verbatim>\<open>drawBoundingBox\<close>,
  \<^verbatim>\<open>drawText\<close>, \<^verbatim>\<open>drawCardArt\<close>, \<^verbatim>\<open>drawElementTemplate\<close>, \<^verbatim>\<open>generateCard\<close>).

  Conventions of the embedding:
  \<^item> a JavaScript \<^verbatim>\<open>number\<close> is an exact rational (\<^typ>\<open>rat\<close>); rounding of
    doubles, \<^verbatim>\<open>NaN\<close> and infinities are not modelled;
  \<^item> a JavaScript string is a \<^typ>\<open>string\<close>;
  \<^item> an optional property \<^verbatim>\<open>p?: T\<close> is a \<^typ>\<open>'a option\<close>, and the
    truthiness tests of the source (\<^verbatim>\<open>a || b\<close>, \<^verbatim>\<open>if (a)\<close>) are written
    out: \<^verbatim>\<open>undefined\<close>, \<^verbatim>\<open>0\<close> and \<^verbatim>\<open>""\<close> are falsy;
  \<^item> console output is not modelled.
\<close>

subsection \<open>JavaScript built-ins used by the code\<close>

text \<open>\<^verbatim>\<open>a || b\<close> on an optional number and on an optional string.\<close>

fun truthyNum :: "rat option \<Rightarrow> bool" where
  "truthyNum None = False"
| "truthyNum (Some v) = (v \<noteq> 0)"

fun numOr :: "rat option \<Rightarrow> rat \<Rightarrow> rat" where
  "numOr None d = d"
| "numOr (Some v) d = (if v \<noteq> 0 then v else d)"

fun truthyStr :: "string option \<Rightarrow> bool" where
  "truthyStr None = False"
| "truthyStr (Some s) = (s \<noteq> [])"

text \<open>\<^verbatim>\<open>s.startsWith(p)\<close> and \<^verbatim>\<open>s.includes(p)\<close>.\<close>

fun startsWith :: "string \<Rightarrow> string \<Rightarrow> bool" where
  "startsWith s [] = True"
| "startsWith [] (p # ps) = False"
| "startsWith (c # cs) (p # ps) = (c = p \<and> startsWith cs ps)"

fun includesStr :: "string \<Rightarrow> string \<Rightarrow> bool" where
  "includesStr [] p = (p = [])"
| "includesStr (c # cs) p = (startsWith (c # cs) p \<or> includesStr cs p)"

text \<open>
  \<^verbatim>\<open>text.split(" ")\<close>: the pieces between single spaces; never empty
  (\<^verbatim>\<open>"".split(" ")\<close> is \<^verbatim>\<open>[""]\<close>, \<^verbatim>\<open>"a  b".split(" ")\<close> is \<^verbatim>\<open>["a", "", "b"]\<close>).
\<close>

fun splitSpace :: "string \<Rightarrow> string list" where
  "splitSpace [] = [[]]"
| "splitSpace (c # cs) =
     (if c = CHR '' '' then [] # splitSpace cs
      else (case splitSpace cs of
              [] \<Rightarrow> [[c]]
            | w # ws \<Rightarrow> (c # w) # ws))"

text \<open>\<^verbatim>\<open>lines.join(" ")\<close>.\<close>

fun joinSpace :: "string list \<Rightarrow> string" where
  "joinSpace [] = []"
| "joinSpace [l] = l"
| "joinSpace (l # l' # ls) = l @ '' '' @ joinSpace (l' # ls)"

subsection \<open>The drawing surface\<close>

text \<open>
  A font assignment \<^verbatim>\<open>`${size}px ${family}`\<close> is kept as the pair of its size and
  family, and a filter assignment \<^verbatim>\<open>`blur(${r}px)`\<close> as its radius.
\<close>

type_synonym font = "rat \<times> string"

datatype canvasFilter = NoFilter | Blur rat

datatype image = Image string

text \<open>The drawing state that \<^verbatim>\<open>save\<close> and \<^verbatim>\<open>restore\<close> keep.\<close>

record DrawState =
  fillStyle :: string
  strokeStyle :: string
  lineWidth :: rat
  font :: font
  textAlign :: string
  textBaseline :: string
  ctxFilter :: canvasFilter

text \<open>
  A draw call, with the part of the drawing state that decides its pixels:
  the fill style and filter of a filled rectangle; the stroke style, line width and filter
  of a stroked rectangle; the font, fill style, alignment, baseline and filter of a text;
  the filter of an image.
\<close>

datatype draw =
    FillRect rat rat rat rat string canvasFilter
  | StrokeRect rat rat rat rat string rat canvasFilter
  | FillText string rat rat font string string string canvasFilter
  | DrawImage image rat rat rat rat canvasFilter

text \<open>
  A context: its current drawing state, the stack of \<^verbatim>\<open>save\<close>, and two logs that the
  statements read: the draw calls made on it, and the calls of \<^verbatim>\<open>wrapText\<close> that were
  given it as their \<^verbatim>\<open>ctx\<close>, each with its text and maximum width. The logs tell which
  path an execution took; no function of the source reads them.
\<close>

record Context =
  cur :: DrawState
  saved :: "DrawState list"
  draws :: "draw list"
  wrapCalls :: "(string \<times> rat) list"

text \<open>The collaborators outside the repository.\<close>

record Env =
  loadImage :: "string \<Rightarrow> image option"
  textWidth :: "font \<Rightarrow> string \<Rightarrow> rat"
  pathJoin :: "string \<Rightarrow> string \<Rightarrow> string"
  toUpperCase :: "string \<Rightarrow> string"
  toLowerCase :: "string \<Rightarrow> string"

definition newContext :: Context where
  "newContext =
     \<lparr>cur = \<lparr>fillStyle = ''#000000'', strokeStyle = ''#000000'', lineWidth = 1,
             font = (10, ''sans-serif''), textAlign = ''start'',
             textBaseline = ''alphabetic'', ctxFilter = NoFilter\<rparr>,
      saved = [], draws = [], wrapCalls = []\<rparr>"

definition setFillStyle :: "string \<Rightarrow> Context \<Rightarrow> Context" where
  "setFillStyle v ctx = ctx\<lparr>cur := (cur ctx)\<lparr>fillStyle := v\<rparr>\<rparr>"

definition setStrokeStyle :: "string \<Rightarrow> Context \<Rightarrow> Context" where
  "setStrokeStyle v ctx = ctx\<lparr>cur := (cur ctx)\<lparr>strokeStyle := v\<rparr>\<rparr>"

definition setLineWidth :: "rat \<Rightarrow> Context \<Rightarrow> Context" where
  "setLineWidth v ctx = ctx\<lparr>cur := (cur ctx)\<lparr>lineWidth := v\<rparr>\<rparr>"

definition setFont :: "font \<Rightarrow> Context \<Rightarrow> Context" where
  "setFont v ctx = ctx\<lparr>cur := (cur ctx)\<lparr>font := v\<rparr>\<rparr>"

definition setTextAlign :: "string \<Rightarrow> Context \<Rightarrow> Context" where
  "setTextAlign v ctx = ctx\<lparr>cur := (cur ctx)\<lparr>textAlign := v\<rparr>\<rparr>"

definition setTextBaseline :: "string \<Rightarrow> Context \<Rightarrow> Context" where
  "setTextBaseline v ctx = ctx\<lparr>cur := (cur ctx)\<lparr>textBaseline := v\<rparr>\<rparr>"

definition setFilter :: "canvasFilter \<Rightarrow> Context \<Rightarrow> Context" where
  "setFilter v ctx = ctx\<lparr>cur := (cur ctx)\<lparr>ctxFilter := v\<rparr>\<rparr>"

definition save :: "Context \<Rightarrow> Context" where
  "save ctx = ctx\<lparr>saved := cur ctx # saved ctx\<rparr>"

definition restore :: "Context \<Rightarrow> Context" where
  "restore ctx =
     (case saved ctx of
        [] \<Rightarrow> ctx
      | s # ss \<Rightarrow> ctx\<lparr>cur := s, saved := ss\<rparr>)"

definition emit :: "draw \<Rightarrow> Context \<Rightarrow> Context" where
  "emit d ctx = ctx\<lparr>draws := draws ctx @ [d]\<rparr>"

definition fillRect :: "rat \<Rightarrow> rat \<Rightarrow> rat \<Rightarrow> rat \<Rightarrow> Context \<Rightarrow> Context" where
  "fillRect rx ry rw rh ctx =
     emit (FillRect rx ry rw rh (fillStyle (cur ctx)) (ctxFilter (cur ctx))) ctx"

definition strokeRect :: "rat \<Rightarrow> rat \<Rightarrow> rat \<Rightarrow> rat \<Rightarrow> Context \<Rightarrow> Context" where
  "strokeRect rx ry rw rh ctx =
     emit (StrokeRect rx ry rw rh (strokeStyle (cur ctx)) (lineWidth (cur ctx))
             (ctxFilter (cur ctx))) ctx"

definition fillText :: "string \<Rightarrow> rat \<Rightarrow> rat \<Rightarrow> Context \<Rightarrow> Context" where
  "fillText s tx ty ctx =
     emit (FillText s tx ty (font (cur ctx)) (fillStyle (cur ctx)) (textAlign (cur ctx))
             (textBaseline (cur ctx)) (ctxFilter (cur ctx))) ctx"

definition drawImage :: "image \<Rightarrow> rat \<Rightarrow> rat \<Rightarrow> rat \<Rightarrow> rat \<Rightarrow> Context \<Rightarrow> Context" where
  "drawImage img rx ry rw rh ctx = emit (DrawImage img rx ry rw rh (ctxFilter (cur ctx))) ctx"

text \<open>\<^verbatim>\<open>ctx.measureText(s).width\<close>: the width of \<open>s\<close> in the font the context has now.\<close>

definition measureText :: "Env \<Rightarrow> Context \<Rightarrow> string \<Rightarrow> rat" where
  "measureText env ctx s = textWidth env (font (cur ctx)) s"

subsection \<open>\<^verbatim>\<open>wrapText\<close>\<close>

text \<open>
  The \<^verbatim>\<open>for\<close> loop of \<^verbatim>\<open>wrapText\<close>, from index \<open>i\<close>, with the lines pushed so far
  and the current line; the last step is the \<^verbatim>\<open>lines.push(currentLine)\<close> after the loop.
\<close>

function wrapLoop ::
  "Env \<Rightarrow> Context \<Rightarrow> rat \<Rightarrow> string list \<Rightarrow> nat \<Rightarrow> string list \<Rightarrow> string \<Rightarrow> string list"
where
  "wrapLoop env ctx maxW words i lines currentLine =
     (if i < length words then
        (let word = words ! i;
             w = measureText env ctx (currentLine @ '' '' @ word)
         in if w < maxW
            then wrapLoop env ctx maxW words (i + 1) lines (currentLine @ '' '' @ word)
            else wrapLoop env ctx maxW words (i + 1) (lines @ [currentLine]) word)
      else lines @ [currentLine])"
  by pat_completeness auto
termination
  by (relation "measure (\<lambda>(env, ctx, maxW, words, i, lines, currentLine). length words - i)")
     auto

declare wrapLoop.simps [simp del]

definition wrapText :: "Env \<Rightarrow> Context \<Rightarrow> string \<Rightarrow> rat \<Rightarrow> string list" where
  "wrapText env ctx text maxW =
     (let words = splitSpace text;
          currentLine = (case words of
                           [] \<Rightarrow> []
                         | w0 # _ \<Rightarrow> (if w0 \<noteq> [] then w0 else []))
      in wrapLoop env ctx maxW words 1 [] currentLine)"

subsection \<open>The greedy word-wrap of the specification\<close>

text \<open>
  The reference: with a current line and the words still to place, a word joins the
  current line exactly when the tentative line measures strictly less than the maximum
  width; otherwise the current line is closed and the word starts the next one. The last
  current line is always pushed.
\<close>

fun greedyLines_spec :: "(string \<Rightarrow> rat) \<Rightarrow> rat \<Rightarrow> string \<Rightarrow> string list \<Rightarrow> string list" where
  "greedyLines_spec m maxW line [] = [line]"
| "greedyLines_spec m maxW line (word # rest) =
     (if m (line @ '' '' @ word) < maxW
      then greedyLines_spec m maxW (line @ '' '' @ word) rest
      else line # greedyLines_spec m maxW word rest)"

definition greedyWrap_spec :: "(string \<Rightarrow> rat) \<Rightarrow> rat \<Rightarrow> string \<Rightarrow> string list" where
  "greedyWrap_spec m maxW text =
     (case splitSpace text of
        [] \<Rightarrow> [[]]
      | first # rest \<Rightarrow> greedyLines_spec m maxW first rest)"

subsection \<open>Data model\<close>

text \<open>\<^verbatim>\<open>align\<close> is a string at run time; the nine keywords of \<^verbatim>\<open>TextAlignment\<close>:\<close>

definition alignments :: "string list" where
  "alignments =
     [''top-left'', ''top-center'', ''top-right'',
      ''left'', ''center'', ''right'',
      ''bottom-left'', ''bottom-center'', ''bottom-right'']"

record TextLayout =
  x :: rat
  y :: rat
  width :: rat
  height :: rat
  fontSize :: rat
  fontFamily :: string
  color :: string
  align :: string
  maxWidth :: "rat option"
  lineHeight :: "rat option"
  padding :: "rat option"
  backgroundColor :: "string option"
  backgroundBlur :: "rat option"

record CardData =
  Card :: string
  Name :: string
  Element :: string
  Cost :: string
  Lore :: string
  Attack :: string
  Armor :: string
  Skills :: string
  Address :: string

text \<open>
  \<^verbatim>\<open>config.layout\<close> is the default layout overwritten by a \<^verbatim>\<open>Partial<CardLayout>\<close>,
  so a field can be \<^verbatim>\<open>undefined\<close> at run time; \<^verbatim>\<open>generateCard\<close> tests for it.
\<close>

record CardLayout =
  name :: "TextLayout option"
  cost :: "TextLayout option"
  lore :: "TextLayout option"
  attack :: "TextLayout option"
  armor :: "TextLayout option"
  skills :: "TextLayout option"

text \<open>
  The resolved configuration; its \<^verbatim>\<open>backgroundColor\<close> is the field
  \<open>canvasBackgroundColor\<close> here (the name is taken by \<^typ>\<open>TextLayout\<close>).
\<close>

record GeneratorConfig =
  templatesPath :: string
  csvPath :: string
  outputDir :: string
  cardWidth :: rat
  cardHeight :: rat
  fonts :: "(string \<times> string) list"
  layout :: CardLayout
  cardArtX :: rat
  cardArtY :: rat
  cardArtWidth :: rat
  cardArtHeight :: rat
  canvasBackgroundColor :: string
  webpQuality :: rat

record CardGenerator =
  config :: GeneratorConfig
  loadedFonts :: "string set"
  cardData :: "CardData list"

record Canvas =
  canvasWidth :: rat
  canvasHeight :: rat
  getContext :: Context

subsection \<open>Anchor resolution\<close>

definition getTextPosition :: "TextLayout \<Rightarrow> rat \<times> rat" where
  "getTextPosition l =
     (if align l = ''top-left'' then (x l, y l)
      else if align l = ''top-center'' then (x l + width l / 2, y l)
      else if align l = ''top-right'' then (x l + width l, y l)
      else if align l = ''left'' then (x l, y l + height l / 2)
      else if align l = ''center'' then (x l + width l / 2, y l + height l / 2)
      else if align l = ''right'' then (x l + width l, y l + height l / 2)
      else if align l = ''bottom-left'' then (x l, y l + height l)
      else if align l = ''bottom-center'' then (x l + width l / 2, y l + height l)
      else if align l = ''bottom-right'' then (x l + width l, y l + height l)
      else (x l + width l / 2, y l + height l / 2))"

definition getCanvasTextAlign :: "string \<Rightarrow> string" where
  "getCanvasTextAlign a =
     (if includesStr a ''left'' then ''left''
      else if includesStr a ''right'' then ''right''
      else ''center'')"

definition getCanvasTextBaseline :: "string \<Rightarrow> string" where
  "getCanvasTextBaseline a =
     (if includesStr a ''top'' then ''top''
      else if includesStr a ''bottom'' then ''bottom''
      else ''middle'')"

subsection \<open>Drawing one text block\<close>

text \<open>\<^verbatim>\<open>s.replace(pat, rep)\<close> with a string pattern: the first occurrence only.\<close>

fun replaceFirst :: "string \<Rightarrow> string \<Rightarrow> string \<Rightarrow> string" where
  "replaceFirst pat rep [] = (if pat = [] then rep else [])"
| "replaceFirst pat rep (c # cs) =
     (if startsWith (c # cs) pat then rep @ drop (length pat) (c # cs)
      else c # replaceFirst pat rep cs)"

text \<open>The check mark U+2713 and the ballot X U+2717 of the debug label, in UTF-8.\<close>

definition checkMark :: string where
  "checkMark = [CHR 0xE2, CHR 0x9C, CHR 0x93]"

definition ballotX :: string where
  "ballotX = [CHR 0xE2, CHR 0x9C, CHR 0x97]"

definition drawBoundingBox ::
  "CardGenerator \<Rightarrow> Context \<Rightarrow> TextLayout \<Rightarrow> string \<Rightarrow> string \<Rightarrow> Context" where
  "drawBoundingBox this ctx l boxColor label =
     (let c1 = setFillStyle boxColor ctx;
          c2 = fillRect (x l) (y l) (width l) (height l) c1;
          c3 = setStrokeStyle (replaceFirst ''0.3'' ''0.8'' boxColor) c2;
          c4 = setLineWidth 2 c3;
          c5 = strokeRect (x l) (y l) (width l) (height l) c4;
          c6 = setFillStyle (replaceFirst ''0.3'' ''0.9'' boxColor) c5;
          c7 = setFont (14, ''Arial'') c6;
          c8 = setTextAlign ''left'' c7;
          c9 = setTextBaseline ''top'' c8;
          fontStatus = (if fontFamily l \<in> loadedFonts this then checkMark else ballotX);
          labelText = label @ '' ('' @ fontFamily l @ '' '' @ fontStatus @ '')''
      in fillText labelText (x l + 4) (y l + 16) c9)"

definition drawTextBackground :: "Context \<Rightarrow> TextLayout \<Rightarrow> Context" where
  "drawTextBackground ctx l =
     (case backgroundColor l of
        None \<Rightarrow> ctx
      | Some bg \<Rightarrow>
          if bg = [] then ctx
          else
            (let c1 = save ctx;
                 c2 = setFillStyle bg c1;
                 c3 = (case backgroundBlur l of
                         None \<Rightarrow> c2
                       | Some b \<Rightarrow> if b \<noteq> 0 \<and> b > 0 then setFilter (Blur b) c2 else c2);
                 c4 = fillRect (x l) (y l) (width l) (height l) c3
             in restore c4))"

text \<open>\<^verbatim>\<open>lines.forEach((line, index) => ...)\<close> of \<^verbatim>\<open>drawText\<close>.\<close>

definition drawLines ::
  "string list \<Rightarrow> rat \<Rightarrow> rat \<Rightarrow> rat \<Rightarrow> Context \<Rightarrow> Context" where
  "drawLines lines px startY lh ctx =
     fold (\<lambda>(index, line). fillText line px (startY + of_nat index * lh))
       (enumerate 0 lines) ctx"

text \<open>
  The call \<^verbatim>\<open>this.wrapText(ctx, text, maxWidth)\<close> of \<^verbatim>\<open>drawText\<close>: the lines it returns,
  and the context with the call logged.
\<close>

definition callWrapText :: "Env \<Rightarrow> Context \<Rightarrow> string \<Rightarrow> rat \<Rightarrow> string list \<times> Context" where
  "callWrapText env ctx text maxW =
     (wrapText env ctx text maxW, ctx\<lparr>wrapCalls := wrapCalls ctx @ [(text, maxW)]\<rparr>)"

definition drawText ::
  "Env \<Rightarrow> CardGenerator \<Rightarrow> Context \<Rightarrow> string \<Rightarrow> TextLayout \<Rightarrow> bool \<Rightarrow>
   string option \<Rightarrow> string option \<Rightarrow> Context" where
  "drawText env this ctx text l debugMode debugColor debugLabel =
     (let c1 = drawTextBackground ctx l;
          c2 = (case (debugColor, debugLabel) of
                  (Some dc, Some dl) \<Rightarrow>
                    if debugMode \<and> dc \<noteq> [] \<and> dl \<noteq> []
                    then drawBoundingBox this c1 l dc dl else c1
                | _ \<Rightarrow> c1);
          family = (if fontFamily l \<in> loadedFonts this then fontFamily l else ''Arial'');
          c3 = setFont (fontSize l, family) c2;
          c4 = setFillStyle (color l) c3;
          c5 = setTextAlign (getCanvasTextAlign (align l)) c4;
          c6 = setTextBaseline (getCanvasTextBaseline (align l)) c5;
          pad = numOr (padding l) 0;
          paddedLayout = l\<lparr>x := x l + pad, y := y l + pad,
                           width := width l - pad * 2, height := height l - pad * 2\<rparr>;
          position = getTextPosition paddedLayout;
          maxW = numOr (maxWidth paddedLayout) (width paddedLayout)
      in if truthyNum (maxWidth l) \<or> includesStr text '' '' then
           (let called = callWrapText env c6 text maxW;
                lines = fst called;
                c7 = snd called;
                lh = numOr (lineHeight l) (fontSize l * 1.2);
                totalTextHeight = of_nat (length lines) * lh;
                startY =
                  (if includesStr (align paddedLayout) ''bottom''
                   then snd position - totalTextHeight + lh
                   else if align paddedLayout = ''center'' \<or> align paddedLayout = ''left''
                           \<or> align paddedLayout = ''right''
                   then snd position - totalTextHeight / 2 + lh / 2
                   else snd position)
            in drawLines lines (fst position) startY lh c7)
         else fillText text (fst position) (snd position) c6)"

subsection \<open>Composing one card\<close>

definition getDebugColors :: "(string \<times> string) list" where
  "getDebugColors =
     [(''name'', ''rgba(255, 0, 0, 0.3)''),
      (''cost'', ''rgba(0, 255, 0, 0.3)''),
      (''lore'', ''rgba(0, 0, 255, 0.3)''),
      (''attack'', ''rgba(255, 255, 0, 0.3)''),
      (''armor'', ''rgba(255, 0, 255, 0.3)''),
      (''skills'', ''rgba(255, 128, 0, 0.3)'')]"

definition getTemplatePathForElement :: "Env \<Rightarrow> CardGenerator \<Rightarrow> string \<Rightarrow> string" where
  "getTemplatePathForElement env this element =
     (let capitalizedElement =
            toUpperCase env (take 1 element) @ toLowerCase env (drop 1 element)
      in pathJoin env (templatesPath (config this)) (capitalizedElement @ ''.png''))"

definition getImageUrlFromAddress :: "string \<Rightarrow> string" where
  "getImageUrlFromAddress address =
     ''https://beetle-game.s3.us-east-1.amazonaws.com/images/'' @ address @ ''.png''"

text \<open>
  \<^verbatim>\<open>loadImage\<close> rejecting is \<open>None\<close>; the \<^verbatim>\<open>catch\<close> branch of \<^verbatim>\<open>drawCardArt\<close> draws
  the placeholder, the one of \<^verbatim>\<open>drawElementTemplate\<close> draws nothing.
\<close>

definition drawCardArt :: "Env \<Rightarrow> CardGenerator \<Rightarrow> Context \<Rightarrow> string \<Rightarrow> bool \<Rightarrow> Context" where
  "drawCardArt env this ctx imagePath debugMode =
     (let ax = cardArtX (config this); ay = cardArtY (config this);
          aw = cardArtWidth (config this); ah = cardArtHeight (config this)
      in case loadImage env imagePath of
           Some img \<Rightarrow>
             (let c1 = drawImage img ax ay aw ah ctx
              in if debugMode then
                   (let c2 = setStrokeStyle ''rgba(0, 255, 0, 0.8)'' c1;
                        c3 = setLineWidth 3 c2;
                        c4 = strokeRect ax ay aw ah c3;
                        c5 = setFillStyle ''rgba(0, 255, 0, 0.9)'' c4;
                        c6 = setFont (16, ''Arial'') c5;
                        c7 = setTextAlign ''left'' c6;
                        c8 = setTextBaseline ''top'' c7
                    in fillText ''Card Art'' (ax + 4) (ay + 20) c8)
                 else c1)
         | None \<Rightarrow>
             (let c1 = setFillStyle ''#ccc'' ctx;
                  c2 = fillRect ax ay aw ah c1;
                  c3 = setFillStyle ''#666'' c2;
                  c4 = setFont (16, ''Stone Serif Semibold'') c3;
                  c5 = setTextAlign ''center'' c4;
                  c6 = setTextBaseline ''middle'' c5;
                  c7 = fillText ''Image Not Found'' (ax + aw / 2) (ay + ah / 2) c6
              in if debugMode then
                   (let c8 = setStrokeStyle ''rgba(255, 0, 0, 0.8)'' c7;
                        c9 = setLineWidth 3 c8
                    in strokeRect ax ay aw ah c9)
                 else c7))"

definition drawElementTemplate :: "Env \<Rightarrow> CardGenerator \<Rightarrow> Context \<Rightarrow> string \<Rightarrow> Context" where
  "drawElementTemplate env this ctx element =
     (let templatePath = getTemplatePathForElement env this element
      in case loadImage env templatePath of
           Some template \<Rightarrow>
             drawImage template 0 0 (cardWidth (config this)) (cardHeight (config this)) ctx
         | None \<Rightarrow> ctx)"

definition textMappings ::
  "((CardData \<Rightarrow> string) \<times> (CardLayout \<Rightarrow> TextLayout option) \<times> string) list" where
  "textMappings =
     [(Name, name, ''name''),
      (Cost, cost, ''cost''),
      (Lore, lore, ''lore''),
      (Attack, attack, ''attack''),
      (Armor, armor, ''armor''),
      (Skills, skills, ''skills'')]"

text \<open>The body of the loop over \<^verbatim>\<open>textMappings\<close>.\<close>

definition drawField ::
  "Env \<Rightarrow> CardGenerator \<Rightarrow> CardData \<Rightarrow> bool \<Rightarrow>
   (CardData \<Rightarrow> string) \<times> (CardLayout \<Rightarrow> TextLayout option) \<times> string \<Rightarrow>
   Context \<Rightarrow> Context" where
  "drawField env this rec debugMode mapping ctx =
     (case mapping of (dataKey, layoutKey, layoutName) \<Rightarrow>
        (let v = dataKey rec
         in case layoutKey (layout (config this)) of
              None \<Rightarrow> ctx
            | Some l \<Rightarrow>
                if v \<noteq> []
                then drawText env this ctx v l debugMode
                       (map_of getDebugColors layoutName) (Some layoutName)
                else ctx))"

definition generateCard :: "Env \<Rightarrow> CardGenerator \<Rightarrow> CardData \<Rightarrow> bool \<Rightarrow> Canvas" where
  "generateCard env this rec debugMode =
     (let c0 = newContext;
          c1 = setFillStyle (canvasBackgroundColor (config this)) c0;
          c2 = fillRect 0 0 (cardWidth (config this)) (cardHeight (config this)) c1;
          c3 = (if Element rec \<noteq> [] then drawElementTemplate env this c2 (Element rec)
                else c2);
          c4 = (if Address rec \<noteq> []
                then drawCardArt env this c3 (getImageUrlFromAddress (Address rec)) debugMode
                else c3);
          c5 = fold (drawField env this rec debugMode) textMappings c4
      in \<lparr>canvasWidth = cardWidth (config this), canvasHeight = cardHeight (config this),
          getContext = c5\<rparr>)"

subsection \<open>Auxiliary definitions for the statements\<close>

text \<open>
  The context at the point where \<^verbatim>\<open>drawText\<close> turns to the text itself: after its
  calls of \<^verbatim>\<open>drawTextBackground\<close> and, in debug mode, \<^verbatim>\<open>drawBoundingBox\<close>, both on
  the layout as given.
\<close>

definition beforeText ::
  "CardGenerator \<Rightarrow> Context \<Rightarrow> TextLayout \<Rightarrow> bool \<Rightarrow> string option \<Rightarrow> string option \<Rightarrow>
   Context" where
  "beforeText this ctx l debugMode debugColor debugLabel =
     (let c1 = drawTextBackground ctx l
      in case (debugColor, debugLabel) of
           (Some dc, Some dl) \<Rightarrow>
             if debugMode \<and> dc \<noteq> [] \<and> dl \<noteq> []
             then drawBoundingBox this c1 l dc dl else c1
         | _ \<Rightarrow> c1)"

text \<open>
  The draw calls of the text blocks of a card, each block drawn by \<^verbatim>\<open>drawText\<close> on a
  fresh context, in the order of \<^verbatim>\<open>textMappings\<close>; a field with an empty value or
  without a layout contributes nothing.
\<close>

definition blockDraws ::
  "Env \<Rightarrow> CardGenerator \<Rightarrow> CardData \<Rightarrow> bool \<Rightarrow>
   (CardData \<Rightarrow> string) \<times> (CardLayout \<Rightarrow> TextLayout option) \<times> string \<Rightarrow> draw list" where
  "blockDraws env this rec debugMode mapping =
     (case mapping of (dataKey, layoutKey, layoutName) \<Rightarrow>
        (case layoutKey (layout (config this)) of
           None \<Rightarrow> []
         | Some l \<Rightarrow>
             if dataKey rec = [] then []
             else draws (drawText env this newContext (dataKey rec) l debugMode
                           (map_of getDebugColors layoutName) (Some layoutName))))"

subsection \<open>Concrete inputs\<close>

text \<open>
  A surface that measures two units per character in Arial and three in any other
  family, with a template resolver and an artwork resolver that fail on every request.
\<close>

definition failingEnv :: Env where
  "failingEnv =
     \<lparr>loadImage = (\<lambda>p. None),
      textWidth = (\<lambda>f s. (if snd f = ''Arial'' then 2 else 3) * of_nat (length s)),
      pathJoin = (\<lambda>d f. d @ ''/'' @ f),
      toUpperCase = (\<lambda>s. s),
      toLowerCase = (\<lambda>s. s)\<rparr>"

text \<open>The same measurer, with resolvers that know one template and one artwork.\<close>

definition loadingEnv :: Env where
  "loadingEnv =
     failingEnv\<lparr>loadImage :=
       (\<lambda>p. if p = ''./assets/fire.png'' then Some (Image ''fire template'')
            else if p = getImageUrlFromAddress ''b1'' then Some (Image ''beetle'')
            else None)\<rparr>"

text \<open>
  An environment that differs from \<open>loadingEnv\<close> in what the two runs do not use:
  it also resolves a third image.
\<close>

definition loadingEnv2 :: Env where
  "loadingEnv2 =
     loadingEnv\<lparr>loadImage :=
       (\<lambda>p. if p = ''./assets/water.png'' then Some (Image ''water template'')
            else loadImage loadingEnv p)\<rparr>"

definition loreLayout :: TextLayout where
  "loreLayout =
     \<lparr>x = 100, y = 540, width = 20, height = 100, fontSize = 10,
      fontFamily = ''Stone Serif Semibold'', color = ''#333'', align = ''bottom-center'',
      maxWidth = None, lineHeight = Some 22, padding = Some 5,
      backgroundColor = Some ''rgba(0, 0, 0, 0.2)'', backgroundBlur = Some 8\<rparr>"

definition nameLayout :: TextLayout where
  "nameLayout =
     \<lparr>x = 75, y = 40, width = 600, height = 80, fontSize = 32,
      fontFamily = ''Stone Serif Semibold'', color = ''#000'', align = ''center'',
      maxWidth = None, lineHeight = None, padding = None,
      backgroundColor = None, backgroundBlur = None\<rparr>"

definition demoConfig :: GeneratorConfig where
  "demoConfig =
     \<lparr>templatesPath = ''./assets'', csvPath = ''./cards.csv'', outputDir = ''./output'',
      cardWidth = 750, cardHeight = 1050, fonts = [],
      layout = \<lparr>name = Some nameLayout, cost = None, lore = Some loreLayout,
                 attack = None, armor = None, skills = None\<rparr>,
      cardArtX = 75, cardArtY = 120, cardArtWidth = 600, cardArtHeight = 400,
      canvasBackgroundColor = ''#ffffff'', webpQuality = 90\<rparr>"

definition demoGenerator :: CardGenerator where
  "demoGenerator = \<lparr>config = demoConfig, loadedFonts = {}, cardData = []\<rparr>"

definition demoCard :: CardData where
  "demoCard =
     \<lparr>Card = ''1'', Name = ''Stag'', Element = ''fire'', Cost = ''3'', Lore = ''aa bb cc'',
      Attack = ''2'', Armor = ''1'', Skills = [], Address = ''b1''\<rparr>"

section \<open>Properties of the line wrapper\<close>

lemma splitSpace_nonempty: "splitSpace t \<noteq> []"
  by (induction t) (auto split: list.splits)

lemma includes_space: "includesStr t '' '' \<longleftrightarrow> CHR '' '' \<in> set t"
  by (induction t) auto

lemma splitSpace_no_space: "CHR '' '' \<notin> set t \<Longrightarrow> splitSpace t = [t]"
  by (induction t) auto

lemma joinSpace_Cons: "ws \<noteq> [] \<Longrightarrow> joinSpace (w # ws) = w @ '' '' @ joinSpace ws"
  by (cases ws) auto

lemma joinSpace_splitSpace: "joinSpace (splitSpace t) = t"
proof (induction t)
  case Nil
  show ?case by simp
next
  case (Cons c cs)
  show ?case
  proof (cases "c = CHR '' ''")
    case True
    with Cons show ?thesis
      by (simp add: joinSpace_Cons splitSpace_nonempty)
  next
    case False
    obtain w ws where ws: "splitSpace cs = w # ws"
      using splitSpace_nonempty [of cs] by (cases "splitSpace cs") auto
    with Cons have "joinSpace (w # ws) = cs" by simp
    then have "joinSpace ((c # w) # ws) = c # cs"
      by (cases ws) auto
    with False ws show ?thesis by simp
  qed
qed

lemma wrapLoop_greedy:
  "i \<le> length words \<Longrightarrow>
   wrapLoop env ctx maxW words i lines currentLine =
     lines @ greedyLines_spec (measureText env ctx) maxW currentLine (drop i words)"
proof (induction env ctx maxW words i lines currentLine rule: wrapLoop.induct)
  case (1 env ctx maxW words i lines currentLine)
  show ?case
  proof (cases "i < length words")
    case False
    with "1.prems" show ?thesis
      by (subst wrapLoop.simps) simp
  next
    case True
    then have d: "drop i words = words ! i # drop (Suc i) words"
      by (simp add: Cons_nth_drop_Suc)
    from True have le: "i + 1 \<le> length words" by simp
    show ?thesis
    proof (cases "measureText env ctx (currentLine @ '' '' @ words ! i) < maxW")
      case fits: True
      from "1.IH"(1) [OF True refl refl fits le] True fits d show ?thesis
        by (subst wrapLoop.simps) (simp add: Let_def)
    next
      case over: False
      from "1.IH"(2) [OF True refl refl over le] True over d show ?thesis
        by (subst wrapLoop.simps) (simp add: Let_def)
    qed
  qed
qed

lemma wrapText_greedy: "wrapText env ctx t maxW = greedyWrap_spec (measureText env ctx) maxW t"
proof -
  obtain w ws where ws: "splitSpace t = w # ws"
    using splitSpace_nonempty [of t] by (cases "splitSpace t") auto
  have "wrapLoop env ctx maxW (w # ws) 1 [] w
          = [] @ greedyLines_spec (measureText env ctx) maxW w (drop 1 (w # ws))"
    by (rule wrapLoop_greedy) simp
  with ws show ?thesis
    by (auto simp: wrapText_def greedyWrap_spec_def)
qed

lemma greedyLines_never_fits:
  "\<forall>s. \<not> m s < maxW \<Longrightarrow> greedyLines_spec m maxW line ws = line # ws"
  by (induction ws arbitrary: line) auto

lemma greedyLines_nonempty: "greedyLines_spec m maxW line ws \<noteq> []"
  by (induction ws arbitrary: line) auto

lemma joinSpace_greedyLines:
  "joinSpace (greedyLines_spec m maxW line ws) = joinSpace (line # ws)"
proof (induction ws arbitrary: line)
  case Nil
  show ?case by simp
next
  case (Cons word rest)
  have ne: "greedyLines_spec m maxW word rest \<noteq> []"
    by (rule greedyLines_nonempty)
  show ?case
  proof (cases "m (line @ '' '' @ word) < maxW")
    case True
    with Cons [of "line @ '' '' @ word"] show ?thesis
      by (cases rest) auto
  next
    case False
    with Cons [of word] ne show ?thesis
      by (simp add: joinSpace_Cons)
  qed
qed

lemma greedyWrap_no_space:
  "CHR '' '' \<notin> set t \<Longrightarrow> greedyWrap_spec m maxW t = [t]"
  by (simp add: greedyWrap_spec_def splitSpace_no_space)

lemma greedyWrap_never_fits:
  "\<forall>s. \<not> m s < maxW \<Longrightarrow> greedyWrap_spec m maxW t = splitSpace t"
  using splitSpace_nonempty [of t]
  by (cases "splitSpace t") (simp_all add: greedyWrap_spec_def greedyLines_never_fits)

subsection \<open>C1: \<^verbatim>\<open>wrapText\<close> is the greedy word-wrap\<close>

text \<open>
  Claim C1. For every text and every maximum width, \<^verbatim>\<open>wrapText\<close> returns the lines of the
  reference greedy word-wrap over the width the context measures: the text is split on
  single spaces, the first word seeds the current line, each further word is appended
  with a space exactly when the tentative line measures strictly less than the maximum
  width and otherwise starts a new line, and the last line is always pushed. In
  particular the empty text gives one empty line; a text without a space gives one line
  equal to the text; with widths that are never negative, a maximum width of at most
  zero gives one word per line; and \<^verbatim>\<open>"aa bb cc"\<close> with a maximum width strictly between
  the widths of \<^verbatim>\<open>"aa bb"\<close> and \<^verbatim>\<open>"aa bb cc"\<close> gives \<^verbatim>\<open>["aa bb", "cc"]\<close>.
\<close>

theorem wrapText_greedy_word_wrap:
  "wrapText env ctx text maxW = greedyWrap_spec (measureText env ctx) maxW text
   \<and> wrapText env ctx [] maxW = [[]]
   \<and> (\<not> includesStr text0 '' '' \<longrightarrow> wrapText env ctx text0 maxW = [text0])
   \<and> ((\<forall>s. 0 \<le> measureText env ctx s) \<and> maxW0 \<le> 0
        \<longrightarrow> wrapText env ctx text maxW0 = splitSpace text)
   \<and> (measureText env ctx ''aa bb'' < maxW1 \<and> maxW1 < measureText env ctx ''aa bb cc''
        \<longrightarrow> wrapText env ctx ''aa bb cc'' maxW1 = [''aa bb'', ''cc''])"
proof (intro conjI impI)
  show "wrapText env ctx text maxW = greedyWrap_spec (measureText env ctx) maxW text"
    by (rule wrapText_greedy)
  show "wrapText env ctx [] maxW = [[]]"
    by (simp add: wrapText_greedy greedyWrap_spec_def)
  show "wrapText env ctx text0 maxW = [text0]" if "\<not> includesStr text0 '' ''"
    using that by (simp add: wrapText_greedy greedyWrap_no_space includes_space)
  show "wrapText env ctx text maxW0 = splitSpace text"
    if "(\<forall>s. 0 \<le> measureText env ctx s) \<and> maxW0 \<le> 0"
  proof -
    from that have "\<forall>s. \<not> measureText env ctx s < maxW0"
      by (metis less_le_not_le order_trans)
    then show ?thesis
      by (simp add: wrapText_greedy greedyWrap_never_fits)
  qed
  show "wrapText env ctx ''aa bb cc'' maxW1 = [''aa bb'', ''cc'']"
    if "measureText env ctx ''aa bb'' < maxW1 \<and> maxW1 < measureText env ctx ''aa bb cc''"
    using that by (simp add: wrapText_greedy greedyWrap_spec_def)
qed

theorem wrapText_greedy_word_wrap_witness:
  "wrapText failingEnv newContext ''a  b'' 9 = [''a '', ''b'']
   \<and> wrapText failingEnv newContext ''beetle'' 9 = [''beetle'']
   \<and> wrapText failingEnv newContext ''a  b'' 0 = [''a'', [], ''b'']
   \<and> wrapText failingEnv newContext ''aa bb cc'' 20 = [''aa bb'', ''cc'']"
  using wrapText_greedy_word_wrap [of failingEnv newContext "''a  b''" 9 "''beetle''" 0 20]
  by (simp add: failingEnv_def newContext_def measureText_def greedyWrap_spec_def)

subsection \<open>C10: wrapping preserves the text\<close>

text \<open>
  Claim C10. For every text and every maximum width, joining the lines of \<^verbatim>\<open>wrapText\<close>
  with a single space gives back the text: wrapping loses, duplicates and reorders
  nothing.
\<close>

theorem joinSpace_wrapText: "joinSpace (wrapText env ctx text maxW) = text"
proof -
  obtain w ws where ws: "splitSpace text = w # ws"
    using splitSpace_nonempty [of "text"] by (cases "splitSpace text") auto
  have "joinSpace (wrapText env ctx text maxW)
          = joinSpace (greedyLines_spec (measureText env ctx) maxW w ws)"
    by (simp add: wrapText_greedy greedyWrap_spec_def ws)
  also have "\<dots> = joinSpace (splitSpace text)"
    by (simp only: joinSpace_greedyLines ws)
  also have "\<dots> = text"
    by (rule joinSpace_splitSpace)
  finally show ?thesis .
qed

theorem joinSpace_wrapText_witness:
  "joinSpace (wrapText failingEnv newContext ''aa bb cc'' 20) = ''aa bb cc''"
  using joinSpace_wrapText [of failingEnv newContext "''aa bb cc''" 20] by simp

section \<open>Properties of anchor resolution\<close>

subsection \<open>C4: the nine alignment keywords\<close>

text \<open>
  Claim C4. For every rectangle and each of the nine alignment keywords, the anchor of
  \<^verbatim>\<open>getTextPosition\<close>, the horizontal mode of \<^verbatim>\<open>getCanvasTextAlign\<close> and the vertical mode
  of \<^verbatim>\<open>getCanvasTextBaseline\<close> are the row of the documented table, in the order
  top-left, top-center, top-right, left, center, right, bottom-left, bottom-center,
  bottom-right.
\<close>

theorem anchor_table:
  "map (\<lambda>a. (getTextPosition (l\<lparr>align := a\<rparr>), getCanvasTextAlign a, getCanvasTextBaseline a))
     alignments =
   [((x l, y l), ''left'', ''top''),
    ((x l + width l / 2, y l), ''center'', ''top''),
    ((x l + width l, y l), ''right'', ''top''),
    ((x l, y l + height l / 2), ''left'', ''middle''),
    ((x l + width l / 2, y l + height l / 2), ''center'', ''middle''),
    ((x l + width l, y l + height l / 2), ''right'', ''middle''),
    ((x l, y l + height l), ''left'', ''bottom''),
    ((x l + width l / 2, y l + height l), ''center'', ''bottom''),
    ((x l + width l, y l + height l), ''right'', ''bottom'')]"
  by (simp add: alignments_def getTextPosition_def getCanvasTextAlign_def
      getCanvasTextBaseline_def)

theorem anchor_table_witness:
  "map (\<lambda>a. (getTextPosition (nameLayout\<lparr>align := a\<rparr>), getCanvasTextAlign a,
             getCanvasTextBaseline a)) alignments =
   [((75, 40), ''left'', ''top''), ((375, 40), ''center'', ''top''),
    ((675, 40), ''right'', ''top''), ((75, 80), ''left'', ''middle''),
    ((375, 80), ''center'', ''middle''), ((675, 80), ''right'', ''middle''),
    ((75, 120), ''left'', ''bottom''), ((375, 120), ''center'', ''bottom''),
    ((675, 120), ''right'', ''bottom'')]"
  using anchor_table [of nameLayout] by (simp add: nameLayout_def)

subsection \<open>C5: alignment strings outside the nine keywords\<close>

text \<open>
  Claim C5 says that every alignment string outside the nine keywords gets the anchor of
  \<^verbatim>\<open>center\<close> and both modes of \<^verbatim>\<open>center\<close>. The anchor does fall back to the centre of
  the rectangle, but the two modes are read from substrings of the string: the string
  \<^verbatim>\<open>"middle-left"\<close> is no keyword and gets the horizontal mode \<^verbatim>\<open>"left"\<close>.
\<close>

theorem unknown_alignment_counterexample:
  "''middle-left'' \<notin> set alignments
   \<and> (getTextPosition (nameLayout\<lparr>align := ''middle-left''\<rparr>),
      getCanvasTextAlign ''middle-left'', getCanvasTextBaseline ''middle-left'')
     = ((375, 80), ''left'', ''middle'')
   \<and> ((375, 80), ''left'', ''middle'')
     \<noteq> ((x nameLayout + width nameLayout / 2, y nameLayout + height nameLayout / 2),
        ''center'', ''middle'')"
  by (simp add: alignments_def getTextPosition_def getCanvasTextAlign_def
      getCanvasTextBaseline_def nameLayout_def)

text \<open>
  Claim C5, amended. For every alignment string outside the nine keywords, the anchor is
  the centre of the rectangle; the horizontal mode is \<^verbatim>\<open>"center"\<close> exactly when the
  string contains neither \<^verbatim>\<open>"left"\<close> nor \<^verbatim>\<open>"right"\<close>, and the vertical mode is
  \<^verbatim>\<open>"middle"\<close> exactly when it contains neither \<^verbatim>\<open>"top"\<close> nor \<^verbatim>\<open>"bottom"\<close>; the
  resolution never fails and always yields one of the three modes of each axis.
\<close>

theorem unknown_alignment_fallback:
  assumes "a \<notin> set alignments"
  shows "getTextPosition (l\<lparr>align := a\<rparr>) = (x l + width l / 2, y l + height l / 2)
     \<and> (getCanvasTextAlign a = ''center''
          \<longleftrightarrow> \<not> includesStr a ''left'' \<and> \<not> includesStr a ''right'')
     \<and> (getCanvasTextBaseline a = ''middle''
          \<longleftrightarrow> \<not> includesStr a ''top'' \<and> \<not> includesStr a ''bottom'')
     \<and> getCanvasTextAlign a \<in> {''left'', ''center'', ''right''}
     \<and> getCanvasTextBaseline a \<in> {''top'', ''middle'', ''bottom''}"
  using assms
  by (simp add: alignments_def getTextPosition_def getCanvasTextAlign_def
      getCanvasTextBaseline_def)

theorem unknown_alignment_fallback_witness:
  "''middle'' \<notin> set alignments
   \<and> getTextPosition (nameLayout\<lparr>align := ''middle''\<rparr>) = (375, 80)
   \<and> getCanvasTextAlign ''middle'' = ''center''
   \<and> getCanvasTextBaseline ''middle'' = ''middle''"
proof -
  have h: "''middle'' \<notin> set alignments" by (simp add: alignments_def)
  from unknown_alignment_fallback [OF h, of nameLayout] h show ?thesis
    by (simp add: nameLayout_def)
qed

section \<open>Properties of the drawing of one block\<close>

lemmas ctx_defs = setFillStyle_def setStrokeStyle_def setLineWidth_def setFont_def
  setTextAlign_def setTextBaseline_def setFilter_def save_def restore_def emit_def
  fillRect_def strokeRect_def fillText_def drawImage_def callWrapText_def

lemma fold_fillText:
  "fold (\<lambda>(index, line). fillText line px (sy + of_nat index * lh)) (enumerate n lines) ctx =
   ctx\<lparr>draws := draws ctx @
     map (\<lambda>(index, line). FillText line px (sy + of_nat index * lh) (font (cur ctx))
           (fillStyle (cur ctx)) (textAlign (cur ctx)) (textBaseline (cur ctx))
           (ctxFilter (cur ctx))) (enumerate n lines)\<rparr>"
  by (induction lines arbitrary: n ctx) (simp_all add: fillText_def emit_def)

lemma drawLines_eq:
  "drawLines lines px sy lh ctx =
   ctx\<lparr>draws := draws ctx @
     map (\<lambda>(index, line). FillText line px (sy + of_nat index * lh) (font (cur ctx))
           (fillStyle (cur ctx)) (textAlign (cur ctx)) (textBaseline (cur ctx))
           (ctxFilter (cur ctx))) (enumerate 0 lines)\<rparr>"
  unfolding drawLines_def by (rule fold_fillText)

lemma wrapText_font:
  "font (cur c) = font (cur c') \<Longrightarrow> wrapText env c t w = wrapText env c' t w"
proof -
  assume "font (cur c) = font (cur c')"
  then have "measureText env c = measureText env c'"
    by (simp add: measureText_def fun_eq_iff)
  then show ?thesis by (simp add: wrapText_greedy)
qed

lemma drawTextBackground_cur: "cur (drawTextBackground ctx l) = cur ctx"
  by (simp add: drawTextBackground_def ctx_defs Let_def split: option.splits)

lemma drawTextBackground_saved: "saved (drawTextBackground ctx l) = saved ctx"
  by (simp add: drawTextBackground_def ctx_defs Let_def split: option.splits)

lemma drawTextBackground_draws:
  "draws (drawTextBackground ctx l) = draws ctx @
     (case backgroundColor l of
        None \<Rightarrow> []
      | Some bg \<Rightarrow>
          if bg = [] then []
          else [FillRect (x l) (y l) (width l) (height l) bg
                  (case backgroundBlur l of
                     None \<Rightarrow> ctxFilter (cur ctx)
                   | Some b \<Rightarrow> if 0 < b then Blur b else ctxFilter (cur ctx))])"
  by (simp add: drawTextBackground_def ctx_defs Let_def split: option.splits)

lemma drawBoundingBox_filter:
  "ctxFilter (cur (drawBoundingBox this ctx l dc dl)) = ctxFilter (cur ctx)"
  by (simp add: drawBoundingBox_def ctx_defs Let_def)

lemma beforeText_filter:
  "ctxFilter (cur (beforeText this ctx l dbg dc dl)) = ctxFilter (cur ctx)"
  by (simp add: beforeText_def Let_def drawBoundingBox_filter drawTextBackground_cur
      split: option.splits)

lemma drawText_draws:
  "draws (drawText env this ctx text l dbg dc dl) =
   draws (beforeText this ctx l dbg dc dl) @
   (let family = (if fontFamily l \<in> loadedFonts this then fontFamily l else ''Arial'');
        pad = numOr (padding l) 0;
        inset = l\<lparr>x := x l + pad, y := y l + pad,
                   width := width l - pad * 2, height := height l - pad * 2\<rparr>;
        position = getTextPosition inset;
        lh = numOr (lineHeight l) (fontSize l * 1.2);
        lines = wrapText env (setFont (fontSize l, family) ctx) text
                  (numOr (maxWidth l) (width l - pad * 2));
        total = of_nat (length lines) * lh;
        startY = (if includesStr (align l) ''bottom'' then snd position - total + lh
                  else if align l = ''center'' \<or> align l = ''left'' \<or> align l = ''right''
                  then snd position - total / 2 + lh / 2
                  else snd position)
    in if truthyNum (maxWidth l) \<or> includesStr text '' '' then
         map (\<lambda>(index, line).
                FillText line (fst position) (startY + of_nat index * lh)
                  (fontSize l, family) (color l) (getCanvasTextAlign (align l))
                  (getCanvasTextBaseline (align l)) (ctxFilter (cur ctx)))
           (enumerate 0 lines)
       else [FillText text (fst position) (snd position) (fontSize l, family) (color l)
               (getCanvasTextAlign (align l)) (getCanvasTextBaseline (align l))
               (ctxFilter (cur ctx))])"
proof -
  let ?family = "if fontFamily l \<in> loadedFonts this then fontFamily l else ''Arial''"
  let ?c2 = "beforeText this ctx l dbg dc dl"
  let ?c6 = "setTextBaseline (getCanvasTextBaseline (align l))
               (setTextAlign (getCanvasTextAlign (align l))
                 (setFillStyle (color l) (setFont (fontSize l, ?family) ?c2)))"
  have w: "wrapText env ?c6 text w = wrapText env (setFont (fontSize l, ?family) ctx) text w" for w
    by (rule wrapText_font) (simp add: ctx_defs)
  have f: "ctxFilter (cur ?c6) = ctxFilter (cur ctx)"
    by (simp add: ctx_defs beforeText_filter)
  have b: "beforeText this ctx l dbg dc dl =
    (case (dc, dl) of
           (Some dc', Some dl') \<Rightarrow>
             if dbg \<and> dc' \<noteq> [] \<and> dl' \<noteq> []
             then drawBoundingBox this (drawTextBackground ctx l) l dc' dl' else drawTextBackground ctx l
         | _ \<Rightarrow> drawTextBackground ctx l)"
    by (simp add: beforeText_def Let_def)
  show ?thesis
    unfolding drawText_def Let_def callWrapText_def fst_conv snd_conv b [symmetric] w
    using f by (simp add: drawLines_eq fillText_def emit_def ctx_defs)
qed

lemma beforeText_wrapCalls:
  "wrapCalls (beforeText this ctx l dbg dc dl) = wrapCalls ctx"
  by (simp add: beforeText_def drawBoundingBox_def drawTextBackground_def ctx_defs Let_def
      split: option.splits)

lemma drawText_wrapCalls:
  "wrapCalls (drawText env this ctx s l dbg dc dl) =
   wrapCalls ctx @
   (if truthyNum (maxWidth l) \<or> includesStr s '' ''
    then [(s, numOr (maxWidth l) (width l - numOr (padding l) 0 * 2))] else [])"
proof -
  let ?c2 = "beforeText this ctx l dbg dc dl"
  have b: "(case (dc, dl) of
              (Some dc', Some dl') \<Rightarrow>
                if dbg \<and> dc' \<noteq> [] \<and> dl' \<noteq> []
                then drawBoundingBox this (drawTextBackground ctx l) l dc' dl'
                else drawTextBackground ctx l
            | _ \<Rightarrow> drawTextBackground ctx l) = ?c2"
    by (simp add: beforeText_def Let_def)
  show ?thesis
    unfolding drawText_def Let_def b
    by (simp add: drawLines_eq fillText_def emit_def setFont_def setFillStyle_def
        setTextAlign_def setTextBaseline_def callWrapText_def beforeText_wrapCalls)
qed

lemma map_enumerate_upt:
  "map (\<lambda>(i, v). f i v) (enumerate 0 xs) = map (\<lambda>i. f i (xs ! i)) [0..<length xs]"
  by (rule nth_equalityI) (simp_all add: nth_enumerate_eq)

lemma wrapText_no_space: "\<not> includesStr t '' '' \<Longrightarrow> wrapText env c t w = [t]"
  by (simp add: wrapText_greedy greedyWrap_spec_def splitSpace_no_space includes_space)

lemma beforeText_prefix:
  "\<exists>box. draws (beforeText this ctx l dbg dc dl) = draws (drawTextBackground ctx l) @ box"
  by (simp add: beforeText_def drawBoundingBox_def ctx_defs Let_def split: option.splits)

lemma keyword_cases:
  assumes "a \<in> set alignments"
  shows "a = ''top-left'' \<or> a = ''top-center'' \<or> a = ''top-right''
    \<or> a = ''left'' \<or> a = ''center'' \<or> a = ''right''
    \<or> a = ''bottom-left'' \<or> a = ''bottom-center'' \<or> a = ''bottom-right''"
  using assms by (simp add: alignments_def)

lemma keyword_start:
  assumes "a \<in> set alignments"
  shows "(if includesStr a ''bottom'' then (b::rat)
          else if a = ''center'' \<or> a = ''left'' \<or> a = ''right'' then m else t) =
         (if getCanvasTextBaseline a = ''bottom'' then b
          else if getCanvasTextBaseline a = ''top'' then t else m)"
  using keyword_cases [OF assms]
  by (elim disjE) (simp_all add: getCanvasTextBaseline_def)

subsection \<open>C2: padding insets the text, not the background\<close>

text \<open>
  Claim C2 has the wrapping done against the inset rectangle. The source wraps at
  \<^verbatim>\<open>paddedLayout.maxWidth || paddedLayout.width\<close>: a declared maximum width is taken as
  it is, not reduced by the padding, and the inset width is used only without one. With
  padding \<open>5\<close>, width \<open>20\<close> and \<^verbatim>\<open>maxWidth: 12\<close> the wrapper is called with \<open>12\<close> and gives
  the two lines \<^verbatim>\<open>aa bb\<close> and \<^verbatim>\<open>cc\<close>, where the inset width \<open>10\<close> gives three lines.
\<close>

theorem padding_maxWidth_counterexample:
  "padding (loreLayout\<lparr>maxWidth := Some 12\<rparr>) = Some 5
   \<and> width (loreLayout\<lparr>maxWidth := Some 12\<rparr>) - 2 * 5 = 10
   \<and> wrapCalls (drawText failingEnv demoGenerator newContext ''aa bb cc''
                  (loreLayout\<lparr>maxWidth := Some 12\<rparr>) False None None) =
     [(''aa bb cc'', 12)]
   \<and> draws (drawText failingEnv demoGenerator newContext ''aa bb cc''
              (loreLayout\<lparr>maxWidth := Some 12\<rparr>) False None None) =
     [FillRect 100 540 20 100 ''rgba(0, 0, 0, 0.2)'' (Blur 8),
      FillText ''aa bb'' 110 613 (10, ''Arial'') ''#333'' ''center'' ''bottom'' NoFilter,
      FillText ''cc'' 110 635 (10, ''Arial'') ''#333'' ''center'' ''bottom'' NoFilter]
   \<and> wrapText failingEnv (setFont (10, ''Arial'') newContext) ''aa bb cc'' 10 =
     [''aa'', ''bb'', ''cc'']"
  by (simp add: loreLayout_def failingEnv_def demoGenerator_def newContext_def
      drawText_def drawTextBackground_def drawLines_def ctx_defs getTextPosition_def
      getCanvasTextAlign_def getCanvasTextBaseline_def wrapText_greedy
      greedyWrap_spec_def measureText_def enumerate_eq_zip Let_def)

text \<open>
  Claim C2, amended. For every layout with a padding \<open>p > 0\<close>: the background fill of the
  block is the rectangle \<open>{x, y, width, height}\<close> of the layout as given, and it is the
  first thing \<^verbatim>\<open>drawText\<close> draws; the text is anchored by \<^verbatim>\<open>getTextPosition\<close> on the inset
  rectangle \<open>{x + p, y + p, width - 2p, height - 2p}\<close>; and the wrapper is called with the
  declared maximum width when one is declared and not zero, unreduced by the padding,
  and with the width \<open>width - 2p\<close> of the inset rectangle only otherwise. Nothing clamps
  the inset width or height: the formulas hold for every \<open>p > 0\<close>, also when
  \<open>width - 2p\<close> is negative.
\<close>

theorem drawText_padding_inset:
  fixes env :: "Env" and this :: "CardGenerator" and ctx :: "Context" and str :: "string"
    and l :: "TextLayout" and p :: "rat"
  assumes pad: "padding l = Some p" and pos: "0 < p"
  defines "inset \<equiv> l\<lparr>x := x l + p, y := y l + p,
                        width := width l - 2 * p, height := height l - 2 * p\<rparr>"
  defines "anchor \<equiv> getTextPosition inset"
      and "family \<equiv> (if fontFamily l \<in> loadedFonts this then fontFamily l else ''Arial'')"
      and "lh \<equiv> numOr (lineHeight l) (fontSize l * 1.2)"
  defines "lines \<equiv> wrapText env (setFont (fontSize l, family) ctx) str
                      (numOr (maxWidth l) (width l - 2 * p))"
  defines "totalH \<equiv> of_nat (length lines) * lh"
  defines "startY \<equiv>
             (if includesStr (align l) ''bottom'' then snd anchor - totalH + lh
              else if align l = ''center'' \<or> align l = ''left'' \<or> align l = ''right''
              then snd anchor - totalH / 2 + lh / 2
              else snd anchor)"
  shows "draws (drawTextBackground ctx l) = draws ctx @
           (case backgroundColor l of
              None \<Rightarrow> []
            | Some bg \<Rightarrow>
                if bg = [] then []
                else [FillRect (x l) (y l) (width l) (height l) bg
                        (case backgroundBlur l of
                           None \<Rightarrow> ctxFilter (cur ctx)
                         | Some b \<Rightarrow> if 0 < b then Blur b else ctxFilter (cur ctx))])
     \<and> (\<exists>box. draws (beforeText this ctx l dbg dc dl) = draws (drawTextBackground ctx l) @ box)
     \<and> draws (drawText env this ctx str l dbg dc dl) =
         draws (beforeText this ctx l dbg dc dl) @
         (if truthyNum (maxWidth l) \<or> includesStr str '' '' then
            map (\<lambda>(index, line).
                   FillText line (fst anchor) (startY + of_nat index * lh)
                     (fontSize l, family) (color l) (getCanvasTextAlign (align l))
                     (getCanvasTextBaseline (align l)) (ctxFilter (cur ctx)))
              (enumerate 0 lines)
          else [FillText str (fst anchor) (snd anchor) (fontSize l, family) (color l)
                  (getCanvasTextAlign (align l)) (getCanvasTextBaseline (align l))
                  (ctxFilter (cur ctx))])
     \<and> wrapCalls (drawText env this ctx str l dbg dc dl) =
         wrapCalls ctx @
         (if truthyNum (maxWidth l) \<or> includesStr str '' ''
          then [(str, numOr (maxWidth l) (width l - 2 * p))] else [])"
proof (intro conjI)
  from pad pos have n: "numOr (padding l) 0 = p" by simp
  show "wrapCalls (drawText env this ctx str l dbg dc dl) =
         wrapCalls ctx @
         (if truthyNum (maxWidth l) \<or> includesStr str '' ''
          then [(str, numOr (maxWidth l) (width l - 2 * p))] else [])"
    unfolding drawText_wrapCalls n mult.commute [of p 2] by (rule refl)
  show "draws (drawText env this ctx str l dbg dc dl) =
         draws (beforeText this ctx l dbg dc dl) @
         (if truthyNum (maxWidth l) \<or> includesStr str '' '' then
            map (\<lambda>(index, line).
                   FillText line (fst anchor) (startY + of_nat index * lh)
                     (fontSize l, family) (color l) (getCanvasTextAlign (align l))
                     (getCanvasTextBaseline (align l)) (ctxFilter (cur ctx)))
              (enumerate 0 lines)
          else [FillText str (fst anchor) (snd anchor) (fontSize l, family) (color l)
                  (getCanvasTextAlign (align l)) (getCanvasTextBaseline (align l))
                  (ctxFilter (cur ctx))])"
    unfolding drawText_draws Let_def n startY_def totalH_def lines_def lh_def family_def
      anchor_def inset_def mult.commute [of p 2]
    by (rule refl)
qed (rule drawTextBackground_draws, rule beforeText_prefix)

theorem drawText_padding_inset_witness:
  "draws (drawTextBackground newContext (loreLayout\<lparr>padding := Some 15\<rparr>)) =
     [FillRect 100 540 20 100 ''rgba(0, 0, 0, 0.2)'' (Blur 8)]
   \<and> getTextPosition (loreLayout\<lparr>x := 115, y := 555, width := - 10, height := 70\<rparr>)
       = (110, 625)
   \<and> wrapCalls (drawText failingEnv demoGenerator newContext ''aa bb cc''
                  (loreLayout\<lparr>padding := Some 15\<rparr>) False None None) =
     [(''aa bb cc'', - 10)]
   \<and> draws (drawText failingEnv demoGenerator newContext ''aa bb cc''
              (loreLayout\<lparr>padding := Some 15\<rparr>) False None None) =
     [FillRect 100 540 20 100 ''rgba(0, 0, 0, 0.2)'' (Blur 8),
      FillText ''aa'' 110 581 (10, ''Arial'') ''#333'' ''center'' ''bottom'' NoFilter,
      FillText ''bb'' 110 603 (10, ''Arial'') ''#333'' ''center'' ''bottom'' NoFilter,
      FillText ''cc'' 110 625 (10, ''Arial'') ''#333'' ''center'' ''bottom'' NoFilter]
   \<and> wrapCalls (drawText failingEnv demoGenerator newContext ''aa bb cc''
                  (loreLayout\<lparr>maxWidth := Some 1300\<rparr>) False None None) =
     [(''aa bb cc'', 1300)]
   \<and> draws (drawText failingEnv demoGenerator newContext ''aa bb cc''
              (loreLayout\<lparr>maxWidth := Some 1300\<rparr>) False None None) =
     [FillRect 100 540 20 100 ''rgba(0, 0, 0, 0.2)'' (Blur 8),
      FillText ''aa bb cc'' 110 635 (10, ''Arial'') ''#333'' ''center'' ''bottom'' NoFilter]"
proof -
  have h1: "padding (loreLayout\<lparr>padding := Some 15\<rparr>) = Some 15" by simp
  have h2: "(0::rat) < 15" by simp
  have k1: "padding (loreLayout\<lparr>maxWidth := Some 1300\<rparr>) = Some 5"
    by (simp add: loreLayout_def)
  have k2: "(0::rat) < 5" by simp
  from drawText_padding_inset [OF h1 h2, where this = demoGenerator and env = failingEnv
      and ctx = newContext and str = "''aa bb cc''" and dbg = False and dc = None
      and dl = None]
    drawText_padding_inset [OF k1 k2, where this = demoGenerator and env = failingEnv
      and ctx = newContext and str = "''aa bb cc''" and dbg = False and dc = None
      and dl = None]
  show ?thesis
    by (simp add: loreLayout_def failingEnv_def demoGenerator_def newContext_def
        beforeText_def drawTextBackground_def ctx_defs getTextPosition_def
        getCanvasTextAlign_def getCanvasTextBaseline_def wrapText_greedy
        greedyWrap_spec_def measureText_def enumerate_eq_zip Let_def)
qed

subsection \<open>C3: vertical placement of the lines\<close>

text \<open>
  Claim C3 takes the line height \<open>L\<close> to be the explicit \<^verbatim>\<open>lineHeight\<close> whenever it is set.
  The source reads \<^verbatim>\<open>layout.lineHeight || layout.fontSize * 1.2\<close>, so an explicit line
  height of \<open>0\<close> is replaced by \<open>fontSize \<times> 1.2\<close>: with \<^verbatim>\<open>lineHeight: 0\<close> and
  \<^verbatim>\<open>fontSize: 10\<close> the three lines of a bottom-anchored block are drawn \<open>12\<close> apart, at
  \<open>611\<close>, \<open>623\<close> and \<open>635\<close> for the anchor \<open>(110, 635)\<close>, where the claim puts all three at
  \<open>635 - 3 \<times> 0 + 0 + i \<times> 0 = 635\<close>.
\<close>

theorem zero_lineHeight_counterexample:
  "lineHeight (loreLayout\<lparr>lineHeight := Some 0\<rparr>) = Some 0
   \<and> getTextPosition (loreLayout\<lparr>x := 105, y := 545, width := 10, height := 90\<rparr>)
       = (110, 635)
   \<and> draws (drawText failingEnv demoGenerator newContext ''aa bb cc''
              (loreLayout\<lparr>lineHeight := Some 0\<rparr>) False None None) =
     [FillRect 100 540 20 100 ''rgba(0, 0, 0, 0.2)'' (Blur 8),
      FillText ''aa'' 110 611 (10, ''Arial'') ''#333'' ''center'' ''bottom'' NoFilter,
      FillText ''bb'' 110 623 (10, ''Arial'') ''#333'' ''center'' ''bottom'' NoFilter,
      FillText ''cc'' 110 635 (10, ''Arial'') ''#333'' ''center'' ''bottom'' NoFilter]
   \<and> (611::rat) \<noteq> 635 - 3 * 0 + 0"
  by (simp add: loreLayout_def failingEnv_def demoGenerator_def newContext_def
      drawText_def drawTextBackground_def drawLines_def ctx_defs getTextPosition_def
      getCanvasTextAlign_def getCanvasTextBaseline_def wrapText_greedy
      greedyWrap_spec_def measureText_def enumerate_eq_zip Let_def)

text \<open>
  Claim C3, amended. Let a block be wrapped into \<open>n\<close> lines, let \<open>L\<close> be the explicit
  \<^verbatim>\<open>lineHeight\<close> if it is set and not zero, and \<open>fontSize \<times> 1.2\<close> otherwise, and let
  \<open>(ax, ay)\<close> be the anchor resolved on the padded rectangle. For each of the nine
  alignment keywords the first line is drawn at \<open>ay - n L + L\<close> when the alignment is
  bottom-anchored, at \<open>ay\<close> when it is top-anchored, and at \<open>ay - n L / 2 + L / 2\<close> when it
  is \<^verbatim>\<open>center\<close>, \<^verbatim>\<open>left\<close> or \<^verbatim>\<open>right\<close>; line \<open>i\<close> (from \<open>0\<close>) is drawn at that height
  plus \<open>i L\<close>, and every line at \<open>ax\<close>. A bottom-center block of three lines has its
  first line at \<open>ay - 2 L\<close>.
\<close>

theorem drawText_vertical_placement:
  fixes env :: "Env" and this :: "CardGenerator" and ctx :: "Context" and str :: "string"
    and l :: "TextLayout"
  assumes kw: "align l \<in> set alignments"
      and wr: "truthyNum (maxWidth l) \<or> includesStr str '' ''"
  defines "pad \<equiv> numOr (padding l) 0"
      and "family \<equiv> (if fontFamily l \<in> loadedFonts this then fontFamily l else ''Arial'')"
      and "L \<equiv> (case lineHeight l of
                   None \<Rightarrow> fontSize l * 1.2
                 | Some h \<Rightarrow> if h = 0 then fontSize l * 1.2 else h)"
  defines "anchor \<equiv> getTextPosition (l\<lparr>x := x l + pad, y := y l + pad,
                                         width := width l - pad * 2,
                                         height := height l - pad * 2\<rparr>)"
      and "lines \<equiv> wrapText env (setFont (fontSize l, family) ctx) str
                      (numOr (maxWidth l) (width l - pad * 2))"
  defines "n \<equiv> length lines"
  defines "firstY \<equiv>
             (if getCanvasTextBaseline (align l) = ''bottom''
              then snd anchor - of_nat n * L + L
              else if getCanvasTextBaseline (align l) = ''top''
              then snd anchor
              else snd anchor - of_nat n * L / 2 + L / 2)"
  shows "draws (drawText env this ctx str l dbg dc dl) =
           draws (beforeText this ctx l dbg dc dl) @
           map (\<lambda>i. FillText (lines ! i) (fst anchor) (firstY + of_nat i * L)
                      (fontSize l, family) (color l) (getCanvasTextAlign (align l))
                      (getCanvasTextBaseline (align l)) (ctxFilter (cur ctx)))
             [0..<n]
     \<and> (align l = ''bottom-center'' \<and> n = 3 \<longrightarrow> firstY = snd anchor - 2 * L)"
proof (intro conjI impI)
  have lh: "numOr (lineHeight l) (fontSize l * 1.2) = L"
    by (cases "lineHeight l") (simp_all add: L_def)
  have sy: "(if includesStr (align l) ''bottom'' then snd anchor - of_nat n * L + L
             else if align l = ''center'' \<or> align l = ''left'' \<or> align l = ''right''
             then snd anchor - of_nat n * L / 2 + L / 2
             else snd anchor) = firstY"
    unfolding firstY_def by (rule keyword_start [OF kw])
  have "draws (drawText env this ctx str l dbg dc dl) =
           draws (beforeText this ctx l dbg dc dl) @
           map (\<lambda>(i, line). FillText line (fst anchor) (firstY + of_nat i * L)
                      (fontSize l, family) (color l) (getCanvasTextAlign (align l))
                      (getCanvasTextBaseline (align l)) (ctxFilter (cur ctx)))
             (enumerate 0 lines)"
    unfolding drawText_draws Let_def lh
    unfolding pad_def [symmetric] family_def [symmetric]
    unfolding lines_def [symmetric] anchor_def [symmetric]
    unfolding n_def [symmetric] sy
    using wr by simp
  then show "draws (drawText env this ctx str l dbg dc dl) =
           draws (beforeText this ctx l dbg dc dl) @
           map (\<lambda>i. FillText (lines ! i) (fst anchor) (firstY + of_nat i * L)
                      (fontSize l, family) (color l) (getCanvasTextAlign (align l))
                      (getCanvasTextBaseline (align l)) (ctxFilter (cur ctx)))
             [0..<n]"
    by (simp only: map_enumerate_upt n_def)
  show "firstY = snd anchor - 2 * L" if "align l = ''bottom-center'' \<and> n = 3"
    using that by (simp add: firstY_def getCanvasTextBaseline_def)
qed

theorem drawText_vertical_placement_witness:
  "draws (drawText failingEnv demoGenerator newContext ''aa bb cc'' loreLayout
            False None None) =
     [FillRect 100 540 20 100 ''rgba(0, 0, 0, 0.2)'' (Blur 8),
      FillText ''aa'' 110 591 (10, ''Arial'') ''#333'' ''center'' ''bottom'' NoFilter,
      FillText ''bb'' 110 613 (10, ''Arial'') ''#333'' ''center'' ''bottom'' NoFilter,
      FillText ''cc'' 110 635 (10, ''Arial'') ''#333'' ''center'' ''bottom'' NoFilter]
   \<and> (591::rat) = 635 - 2 * 22"
proof -
  have h1: "align loreLayout \<in> set alignments"
    by (simp add: loreLayout_def alignments_def)
  have h2: "truthyNum (maxWidth loreLayout) \<or> includesStr ''aa bb cc'' '' ''" by simp
  from drawText_vertical_placement [OF h1 h2, where this = demoGenerator
      and env = failingEnv and ctx = newContext and dbg = False and dc = None and dl = None]
  show ?thesis
    by (simp add: loreLayout_def failingEnv_def demoGenerator_def newContext_def
        beforeText_def drawTextBackground_def ctx_defs getTextPosition_def
        getCanvasTextAlign_def getCanvasTextBaseline_def wrapText_greedy
        greedyWrap_spec_def measureText_def upt_rec Let_def)
qed

subsection \<open>C6: when the text is wrapped\<close>

text \<open>
  Claim C6 has the wrapper run whenever the layout declares a maximum width. The source
  tests \<^verbatim>\<open>layout.maxWidth || text.includes(" ")\<close>, so a declared maximum width of \<open>0\<close>
  counts as none: with \<^verbatim>\<open>maxWidth: 0\<close> and the text \<^verbatim>\<open>Stag\<close> the wrapper is not called,
  and the text is drawn by the single unwrapped call.
\<close>

theorem zero_maxWidth_counterexample:
  "maxWidth (nameLayout\<lparr>maxWidth := Some 0\<rparr>) = Some 0
   \<and> wrapCalls (drawText failingEnv demoGenerator newContext ''Stag''
                  (nameLayout\<lparr>maxWidth := Some 0\<rparr>) False None None) = []
   \<and> draws (drawText failingEnv demoGenerator newContext ''Stag''
              (nameLayout\<lparr>maxWidth := Some 0\<rparr>) False None None) =
     [FillText ''Stag'' 375 80 (32, ''Arial'') ''#000'' ''center'' ''middle'' NoFilter]"
  by (simp add: nameLayout_def failingEnv_def demoGenerator_def newContext_def
      drawText_def drawTextBackground_def drawLines_def ctx_defs getTextPosition_def
      getCanvasTextAlign_def getCanvasTextBaseline_def Let_def)

text \<open>
  Claim C6, amended. For every text and layout, \<^verbatim>\<open>drawText\<close> calls \<^verbatim>\<open>wrapText\<close>, once, on
  the text, if and only if the layout declares a maximum width that is not zero or the
  text contains a space; it then draws the lines the call returns, placed line by line.
  Otherwise (a text without a space, and no maximum width or the maximum width \<open>0\<close>) it
  makes no call of \<^verbatim>\<open>wrapText\<close> and exactly one \<^verbatim>\<open>fillText\<close> call, of the whole text at
  the resolved anchor.
\<close>

theorem drawText_wraps_iff:
  fixes env :: "Env" and this :: "CardGenerator" and ctx :: "Context" and str :: "string"
    and l :: "TextLayout"
  defines "pad \<equiv> numOr (padding l) 0"
      and "family \<equiv> (if fontFamily l \<in> loadedFonts this then fontFamily l else ''Arial'')"
      and "lh \<equiv> numOr (lineHeight l) (fontSize l * 1.2)"
  defines "anchor \<equiv> getTextPosition (l\<lparr>x := x l + pad, y := y l + pad,
                                         width := width l - pad * 2,
                                         height := height l - pad * 2\<rparr>)"
      and "maxW \<equiv> numOr (maxWidth l) (width l - pad * 2)"
  defines "lines \<equiv> wrapText env (setFont (fontSize l, family) ctx) str maxW"
  defines "totalH \<equiv> of_nat (length lines) * lh"
  defines "startY \<equiv>
             (if includesStr (align l) ''bottom'' then snd anchor - totalH + lh
              else if align l = ''center'' \<or> align l = ''left'' \<or> align l = ''right''
              then snd anchor - totalH / 2 + lh / 2
              else snd anchor)"
  shows "wrapCalls (drawText env this ctx str l dbg dc dl) =
           wrapCalls ctx @
           (if (maxWidth l \<noteq> None \<and> maxWidth l \<noteq> Some 0) \<or> CHR '' '' \<in> set str
            then [(str, maxW)] else [])
     \<and> draws (drawText env this ctx str l dbg dc dl) =
           draws (beforeText this ctx l dbg dc dl) @
           (if (maxWidth l \<noteq> None \<and> maxWidth l \<noteq> Some 0) \<or> CHR '' '' \<in> set str then
              map (\<lambda>(index, line).
                     FillText line (fst anchor) (startY + of_nat index * lh)
                       (fontSize l, family) (color l) (getCanvasTextAlign (align l))
                       (getCanvasTextBaseline (align l)) (ctxFilter (cur ctx)))
                (enumerate 0 lines)
            else [FillText str (fst anchor) (snd anchor) (fontSize l, family) (color l)
                    (getCanvasTextAlign (align l)) (getCanvasTextBaseline (align l))
                    (ctxFilter (cur ctx))])"
proof -
  have cond: "((maxWidth l \<noteq> None \<and> maxWidth l \<noteq> Some 0) \<or> CHR '' '' \<in> set str) =
              (truthyNum (maxWidth l) \<or> includesStr str '' '')"
    by (cases "maxWidth l") (simp_all add: includes_space)
  have calls: "wrapCalls (drawText env this ctx str l dbg dc dl) =
           wrapCalls ctx @
           (if truthyNum (maxWidth l) \<or> includesStr str '' ''
            then [(str, maxW)] else [])"
    unfolding drawText_wrapCalls maxW_def pad_def by (rule refl)
  have master: "draws (drawText env this ctx str l dbg dc dl) =
           draws (beforeText this ctx l dbg dc dl) @
           (if truthyNum (maxWidth l) \<or> includesStr str '' '' then
              map (\<lambda>(index, line).
                     FillText line (fst anchor) (startY + of_nat index * lh)
                       (fontSize l, family) (color l) (getCanvasTextAlign (align l))
                       (getCanvasTextBaseline (align l)) (ctxFilter (cur ctx)))
                (enumerate 0 lines)
            else [FillText str (fst anchor) (snd anchor) (fontSize l, family) (color l)
                    (getCanvasTextAlign (align l)) (getCanvasTextBaseline (align l))
                    (ctxFilter (cur ctx))])"
    unfolding drawText_draws Let_def startY_def totalH_def lines_def maxW_def anchor_def
      lh_def family_def pad_def
    by (rule refl)
  show ?thesis
    unfolding cond by (intro conjI) (rule calls, rule master)
qed

theorem drawText_wraps_iff_witness:
  "wrapCalls (drawText failingEnv demoGenerator newContext ''Stag'' nameLayout
                False None None) = []
   \<and> draws (drawText failingEnv demoGenerator newContext ''Stag'' nameLayout
              False None None) =
     [FillText ''Stag'' 375 80 (32, ''Arial'') ''#000'' ''center'' ''middle'' NoFilter]
   \<and> wrapCalls (drawText failingEnv demoGenerator newContext ''Stag''
                  (nameLayout\<lparr>maxWidth := Some 700\<rparr>) False None None) =
     [(''Stag'', 700)]
   \<and> draws (drawText failingEnv demoGenerator newContext ''Stag''
              (nameLayout\<lparr>maxWidth := Some 700\<rparr>) False None None) =
     [FillText ''Stag'' 375 80 (32, ''Arial'') ''#000'' ''center'' ''middle'' NoFilter]
   \<and> wrapCalls (drawText failingEnv demoGenerator newContext ''Stag Beetle''
                  (nameLayout\<lparr>width := 20\<rparr>) False None None) =
     [(''Stag Beetle'', 20)]
   \<and> draws (drawText failingEnv demoGenerator newContext ''Stag Beetle''
              (nameLayout\<lparr>width := 20\<rparr>) False None None) =
     [FillText ''Stag'' 85 (304 / 5) (32, ''Arial'') ''#000'' ''center'' ''middle'' NoFilter,
      FillText ''Beetle'' 85 (496 / 5) (32, ''Arial'') ''#000'' ''center'' ''middle''
        NoFilter]"
  using
    drawText_wraps_iff [where this = demoGenerator and env = failingEnv and ctx = newContext
      and str = "''Stag''" and l = nameLayout and dbg = False and dc = None and dl = None]
    drawText_wraps_iff [where this = demoGenerator and env = failingEnv and ctx = newContext
      and str = "''Stag''" and l = "nameLayout\<lparr>maxWidth := Some 700\<rparr>" and dbg = False
      and dc = None and dl = None]
    drawText_wraps_iff [where this = demoGenerator and env = failingEnv and ctx = newContext
      and str = "''Stag Beetle''" and l = "nameLayout\<lparr>width := 20\<rparr>" and dbg = False
      and dc = None and dl = None]
  by (simp add: nameLayout_def failingEnv_def demoGenerator_def newContext_def
      beforeText_def drawTextBackground_def ctx_defs getTextPosition_def
      getCanvasTextAlign_def getCanvasTextBaseline_def wrapText_greedy
      greedyWrap_spec_def measureText_def enumerate_eq_zip Let_def)

subsection \<open>C7: one font for measuring and drawing\<close>

text \<open>
  Claim C7. For every layout the family is resolved once: the declared family if it is
  among the loaded fonts, \<^verbatim>\<open>Arial\<close> otherwise. The lines of a wrapped block are those of
  \<^verbatim>\<open>wrapText\<close> in a context whose font is the font size of the layout with the resolved
  family, so that every width it measures is the width in that font; and every
  \<^verbatim>\<open>fillText\<close> call of the block is made in that same font.
\<close>

theorem drawText_one_font:
  fixes env :: "Env" and this :: "CardGenerator" and ctx :: "Context" and str :: "string"
    and l :: "TextLayout" and c :: "Context"
  defines "pad \<equiv> numOr (padding l) 0"
      and "family \<equiv> (if fontFamily l \<in> loadedFonts this then fontFamily l else ''Arial'')"
      and "lh \<equiv> numOr (lineHeight l) (fontSize l * 1.2)"
  defines "anchor \<equiv> getTextPosition (l\<lparr>x := x l + pad, y := y l + pad,
                                         width := width l - pad * 2,
                                         height := height l - pad * 2\<rparr>)"
      and "lines \<equiv> wrapText env c str (numOr (maxWidth l) (width l - pad * 2))"
  defines "totalH \<equiv> of_nat (length lines) * lh"
  defines "startY \<equiv>
             (if includesStr (align l) ''bottom'' then snd anchor - totalH + lh
              else if align l = ''center'' \<or> align l = ''left'' \<or> align l = ''right''
              then snd anchor - totalH / 2 + lh / 2
              else snd anchor)"
  assumes fc: "font (cur c) = (fontSize l, family)"
  shows "measureText env c = textWidth env (fontSize l, family)
     \<and> draws (drawText env this ctx str l dbg dc dl) =
           draws (beforeText this ctx l dbg dc dl) @
           (if truthyNum (maxWidth l) \<or> includesStr str '' '' then
              map (\<lambda>(index, line).
                     FillText line (fst anchor) (startY + of_nat index * lh)
                       (fontSize l, family) (color l) (getCanvasTextAlign (align l))
                       (getCanvasTextBaseline (align l)) (ctxFilter (cur ctx)))
                (enumerate 0 lines)
            else [FillText str (fst anchor) (snd anchor) (fontSize l, family) (color l)
                    (getCanvasTextAlign (align l)) (getCanvasTextBaseline (align l))
                    (ctxFilter (cur ctx))])"
proof (intro conjI)
  show "measureText env c = textWidth env (fontSize l, family)"
    by (simp add: measureText_def fun_eq_iff fc)
  have "font (cur (setFont (fontSize l, family) ctx)) = font (cur c)"
    by (simp add: setFont_def fc)
  then have w: "wrapText env (setFont (fontSize l, family) ctx) str
                  (numOr (maxWidth l) (width l - pad * 2)) = lines"
    unfolding lines_def by (rule wrapText_font)
  show "draws (drawText env this ctx str l dbg dc dl) =
           draws (beforeText this ctx l dbg dc dl) @
           (if truthyNum (maxWidth l) \<or> includesStr str '' '' then
              map (\<lambda>(index, line).
                     FillText line (fst anchor) (startY + of_nat index * lh)
                       (fontSize l, family) (color l) (getCanvasTextAlign (align l))
                       (getCanvasTextBaseline (align l)) (ctxFilter (cur ctx)))
                (enumerate 0 lines)
            else [FillText str (fst anchor) (snd anchor) (fontSize l, family) (color l)
                    (getCanvasTextAlign (align l)) (getCanvasTextBaseline (align l))
                    (ctxFilter (cur ctx))])"
    unfolding drawText_draws Let_def
    unfolding pad_def [symmetric] family_def [symmetric] lh_def [symmetric]
    unfolding w anchor_def [symmetric]
    unfolding startY_def totalH_def
    by (rule refl)
qed

theorem drawText_one_font_witness:
  "textWidth failingEnv (10, ''Arial'') ''aa bb'' = 10
   \<and> textWidth failingEnv (10, ''Stone Serif Semibold'') ''aa bb'' = 15
   \<and> draws (drawText failingEnv demoGenerator newContext ''aa bb cc''
              (loreLayout\<lparr>maxWidth := Some 12\<rparr>) False None None) =
     [FillRect 100 540 20 100 ''rgba(0, 0, 0, 0.2)'' (Blur 8),
      FillText ''aa bb'' 110 613 (10, ''Arial'') ''#333'' ''center'' ''bottom'' NoFilter,
      FillText ''cc'' 110 635 (10, ''Arial'') ''#333'' ''center'' ''bottom'' NoFilter]"
proof -
  have h: "font (cur (setFont (10, ''Arial'') newContext)) =
           (fontSize (loreLayout\<lparr>maxWidth := Some 12\<rparr>),
            if fontFamily (loreLayout\<lparr>maxWidth := Some 12\<rparr>) \<in> loadedFonts demoGenerator
            then fontFamily (loreLayout\<lparr>maxWidth := Some 12\<rparr>) else ''Arial'')"
    by (simp add: setFont_def loreLayout_def demoGenerator_def)
  from drawText_one_font [OF h, where env = failingEnv and ctx = newContext
      and str = "''aa bb cc''" and dbg = False and dc = None and dl = None]
  show ?thesis
    by (simp add: loreLayout_def failingEnv_def demoGenerator_def newContext_def
        beforeText_def drawTextBackground_def ctx_defs getTextPosition_def
        getCanvasTextAlign_def getCanvasTextBaseline_def wrapText_greedy
        greedyWrap_spec_def measureText_def enumerate_eq_zip Let_def)
qed

section \<open>Properties of the composition of a card\<close>

lemma beforeText_frame:
  "ctxFilter (cur ctx) = NoFilter \<Longrightarrow>
   draws (beforeText this ctx l dbg dc dl) =
     draws ctx @ draws (beforeText this newContext l dbg dc dl)"
  by (simp add: beforeText_def drawBoundingBox_def drawTextBackground_def ctx_defs
      newContext_def Let_def split: option.splits)

lemma drawText_frame:
  assumes nf: "ctxFilter (cur ctx) = NoFilter"
  shows "draws (drawText env this ctx s l dbg dc dl) =
           draws ctx @ draws (drawText env this newContext s l dbg dc dl)"
proof -
  have w: "wrapText env (setFont f ctx) s w = wrapText env (setFont f newContext) s w" for f w
    by (rule wrapText_font) (simp add: setFont_def)
  have f: "ctxFilter (cur newContext) = NoFilter"
    by (simp add: newContext_def)
  show ?thesis
    by (simp only: drawText_draws w nf f beforeText_frame [OF nf] append_assoc)
qed

lemma drawText_filter:
  "ctxFilter (cur (drawText env this ctx s l dbg dc dl)) = ctxFilter (cur ctx)"
proof -
  let ?c2 = "beforeText this ctx l dbg dc dl"
  have b: "(case (dc, dl) of
              (Some dc', Some dl') \<Rightarrow>
                if dbg \<and> dc' \<noteq> [] \<and> dl' \<noteq> []
                then drawBoundingBox this (drawTextBackground ctx l) l dc' dl'
                else drawTextBackground ctx l
            | _ \<Rightarrow> drawTextBackground ctx l) = ?c2"
    by (simp add: beforeText_def Let_def)
  show ?thesis
    unfolding drawText_def Let_def b
    by (simp add: drawLines_eq fillText_def emit_def setFont_def setFillStyle_def
        setTextAlign_def setTextBaseline_def callWrapText_def beforeText_filter)
qed

lemma drawField_frame:
  assumes "ctxFilter (cur ctx) = NoFilter"
  shows "draws (drawField env this rec dbg m ctx) = draws ctx @ blockDraws env this rec dbg m"
    and "ctxFilter (cur (drawField env this rec dbg m ctx)) = NoFilter"
  using assms
  by (cases m; simp add: drawField_def blockDraws_def Let_def drawText_frame drawText_filter
      split: option.splits)+

lemma fold_drawField:
  "ctxFilter (cur ctx) = NoFilter \<Longrightarrow>
   draws (fold (drawField env this rec dbg) ms ctx) =
     draws ctx @ concat (map (blockDraws env this rec dbg) ms)"
  by (induction ms arbitrary: ctx) (simp_all add: drawField_frame)

subsection \<open>C8: both resolvers fail\<close>

text \<open>
  Claim C8 promises the placeholder for every record. \<^verbatim>\<open>generateCard\<close> calls
  \<^verbatim>\<open>drawCardArt\<close> only under \<^verbatim>\<open>if (cardData.Address)\<close>: a record with an empty address
  gets no artwork and no placeholder, whatever the resolvers do.
\<close>

theorem no_address_counterexample:
  "Address (demoCard\<lparr>Address := []\<rparr>) = []
   \<and> draws (getContext (generateCard failingEnv demoGenerator (demoCard\<lparr>Address := []\<rparr>)
                          False)) =
     [FillRect 0 0 750 1050 ''#ffffff'' NoFilter,
      FillText ''Stag'' 375 80 (32, ''Arial'') ''#000'' ''center'' ''middle'' NoFilter,
      FillRect 100 540 20 100 ''rgba(0, 0, 0, 0.2)'' (Blur 8),
      FillText ''aa'' 110 591 (10, ''Arial'') ''#333'' ''center'' ''bottom'' NoFilter,
      FillText ''bb'' 110 613 (10, ''Arial'') ''#333'' ''center'' ''bottom'' NoFilter,
      FillText ''cc'' 110 635 (10, ''Arial'') ''#333'' ''center'' ''bottom'' NoFilter]
   \<and> FillRect 75 120 600 400 ''#ccc'' NoFilter
       \<notin> set (draws (getContext (generateCard failingEnv demoGenerator
                                    (demoCard\<lparr>Address := []\<rparr>) False)))"
  by (simp add: generateCard_def drawElementTemplate_def getTemplatePathForElement_def
      drawField_def textMappings_def getDebugColors_def demoCard_def demoGenerator_def
      demoConfig_def
      nameLayout_def loreLayout_def failingEnv_def newContext_def
      drawText_def drawTextBackground_def drawLines_def ctx_defs getTextPosition_def
      getCanvasTextAlign_def getCanvasTextBaseline_def wrapText_greedy
      greedyWrap_spec_def measureText_def enumerate_eq_zip Let_def)

text \<open>
  Claim C8, amended. When the template resolver and the artwork resolver fail on every
  request, composing any record succeeds and yields, in this order: the fill of the whole
  canvas in the background colour; if the address of the record is not empty, the
  placeholder rectangle \<^verbatim>\<open>#ccc\<close> at the configured artwork rectangle with the caption
  \<^verbatim>\<open>Image Not Found\<close> at its centre (and, in debug mode, a stroke around it), and nothing
  in its place if the address is empty; and the draw calls of every text block that has
  a value and a layout, each exactly as \<^verbatim>\<open>drawText\<close> draws it on a fresh canvas. The
  composer is total: no failure of a resolver leaves it.
\<close>

theorem generateCard_resolvers_fail:
  fixes env :: "Env" and this :: "CardGenerator" and rec :: "CardData" and dbg :: "bool"
  defines "cfg \<equiv> config this"
  assumes fail: "\<forall>p. loadImage env p = None"
  shows "draws (getContext (generateCard env this rec dbg)) =
     [FillRect 0 0 (cardWidth cfg) (cardHeight cfg) (canvasBackgroundColor cfg) NoFilter]
     @ (if Address rec = [] then []
        else
          [FillRect (cardArtX cfg) (cardArtY cfg) (cardArtWidth cfg) (cardArtHeight cfg)
             ''#ccc'' NoFilter,
           FillText ''Image Not Found'' (cardArtX cfg + cardArtWidth cfg / 2)
             (cardArtY cfg + cardArtHeight cfg / 2) (16, ''Stone Serif Semibold'') ''#666''
             ''center'' ''middle'' NoFilter]
          @ (if dbg
             then [StrokeRect (cardArtX cfg) (cardArtY cfg) (cardArtWidth cfg)
                     (cardArtHeight cfg) ''rgba(255, 0, 0, 0.8)'' 3 NoFilter]
             else []))
     @ concat (map (blockDraws env this rec dbg) textMappings)"
proof -
  let ?c2 = "fillRect 0 0 (cardWidth cfg) (cardHeight cfg)
               (setFillStyle (canvasBackgroundColor cfg) newContext)"
  let ?c4 = "if Address rec \<noteq> []
             then drawCardArt env this ?c2 (getImageUrlFromAddress (Address rec)) dbg
             else ?c2"
  have c3: "drawElementTemplate env this ?c2 (Element rec) = ?c2"
    using fail by (simp add: drawElementTemplate_def Let_def)
  have g: "getContext (generateCard env this rec dbg) =
             fold (drawField env this rec dbg) textMappings ?c4"
    by (simp add: generateCard_def Let_def c3 [unfolded cfg_def] cfg_def)
  have nf: "ctxFilter (cur ?c4) = NoFilter"
    using fail by (simp add: drawCardArt_def ctx_defs newContext_def Let_def)
  have d4: "draws ?c4 =
     [FillRect 0 0 (cardWidth cfg) (cardHeight cfg) (canvasBackgroundColor cfg) NoFilter]
     @ (if Address rec = [] then []
        else
          [FillRect (cardArtX cfg) (cardArtY cfg) (cardArtWidth cfg) (cardArtHeight cfg)
             ''#ccc'' NoFilter,
           FillText ''Image Not Found'' (cardArtX cfg + cardArtWidth cfg / 2)
             (cardArtY cfg + cardArtHeight cfg / 2) (16, ''Stone Serif Semibold'') ''#666''
             ''center'' ''middle'' NoFilter]
          @ (if dbg
             then [StrokeRect (cardArtX cfg) (cardArtY cfg) (cardArtWidth cfg)
                     (cardArtHeight cfg) ''rgba(255, 0, 0, 0.8)'' 3 NoFilter]
             else []))"
    using fail by (simp add: drawCardArt_def ctx_defs newContext_def Let_def cfg_def)
  show ?thesis
    unfolding g fold_drawField [OF nf] d4 by simp
qed

theorem generateCard_resolvers_fail_witness:
  "draws (getContext (generateCard failingEnv demoGenerator demoCard False)) =
     [FillRect 0 0 750 1050 ''#ffffff'' NoFilter,
      FillRect 75 120 600 400 ''#ccc'' NoFilter,
      FillText ''Image Not Found'' 375 320 (16, ''Stone Serif Semibold'') ''#666''
        ''center'' ''middle'' NoFilter,
      FillText ''Stag'' 375 80 (32, ''Arial'') ''#000'' ''center'' ''middle'' NoFilter,
      FillRect 100 540 20 100 ''rgba(0, 0, 0, 0.2)'' (Blur 8),
      FillText ''aa'' 110 591 (10, ''Arial'') ''#333'' ''center'' ''bottom'' NoFilter,
      FillText ''bb'' 110 613 (10, ''Arial'') ''#333'' ''center'' ''bottom'' NoFilter,
      FillText ''cc'' 110 635 (10, ''Arial'') ''#333'' ''center'' ''bottom'' NoFilter]"
proof -
  have h1: "\<forall>p. loadImage failingEnv p = None" by (simp add: failingEnv_def)
  from generateCard_resolvers_fail [OF h1, of demoGenerator demoCard False]
  show ?thesis
    by (simp add: blockDraws_def textMappings_def getDebugColors_def demoCard_def
      demoGenerator_def
      demoConfig_def nameLayout_def loreLayout_def failingEnv_def newContext_def
      drawText_def drawTextBackground_def drawLines_def ctx_defs getTextPosition_def
      getCanvasTextAlign_def getCanvasTextBaseline_def wrapText_greedy
      greedyWrap_spec_def measureText_def enumerate_eq_zip Let_def)
qed

subsection \<open>C9: composition is deterministic\<close>

lemma wrapText_cong:
  assumes "textWidth env1 = textWidth env2"
  shows "wrapText env1 c s w = wrapText env2 c s w"
proof -
  have "measureText env1 c = measureText env2 c"
    by (rule ext) (simp add: measureText_def assms)
  then show ?thesis by (simp add: wrapText_greedy)
qed

lemma drawText_cong:
  assumes tw: "textWidth env1 = textWidth env2"
      and lf: "loadedFonts this1 = loadedFonts this2"
  shows "drawText env1 this1 ctx s l dbg dc dl = drawText env2 this2 ctx s l dbg dc dl"
  unfolding drawText_def callWrapText_def drawBoundingBox_def wrapText_cong [OF tw] lf
  by (rule refl)

lemma drawField_cong:
  assumes tw: "textWidth env1 = textWidth env2"
      and lf: "loadedFonts this1 = loadedFonts this2"
      and cf: "config this1 = config this2"
  shows "drawField env1 this1 rec dbg = drawField env2 this2 rec dbg"
proof (intro ext)
  fix m c
  show "drawField env1 this1 rec dbg m c = drawField env2 this2 rec dbg m c"
    unfolding drawField_def cf drawText_cong [OF tw lf] by (rule refl)
qed

text \<open>
  Claim C9. The canvas that \<^verbatim>\<open>generateCard\<close> returns is a function of the record, the
  configuration, the set of loaded fonts, the measurement of the surface, and what the
  template resolver and the artwork resolver return for this record: two runs that agree
  on these produce the same canvas, with the same sequence of draw calls and the same
  arguments, whatever else differs between them (other images the resolvers know, the
  rows loaded into the generator, the path and case functions behind the template path).
  In particular a second run with the same inputs repeats the first.
\<close>

theorem generateCard_deterministic:
  assumes cf: "config this1 = config this2"
      and lf: "loadedFonts this1 = loadedFonts this2"
      and tw: "textWidth env1 = textWidth env2"
      and template: "loadImage env1 (getTemplatePathForElement env1 this1 (Element rec)) =
                     loadImage env2 (getTemplatePathForElement env2 this2 (Element rec))"
      and artwork: "loadImage env1 (getImageUrlFromAddress (Address rec)) =
                    loadImage env2 (getImageUrlFromAddress (Address rec))"
  shows "generateCard env1 this1 rec dbg = generateCard env2 this2 rec dbg"
proof -
  have t: "drawElementTemplate env1 this1 c (Element rec) =
           drawElementTemplate env2 this2 c (Element rec)" for c
    unfolding drawElementTemplate_def Let_def template cf by (rule refl)
  have a: "drawCardArt env1 this1 c (getImageUrlFromAddress (Address rec)) dbg =
           drawCardArt env2 this2 c (getImageUrlFromAddress (Address rec)) dbg" for c
    unfolding drawCardArt_def cf artwork by (rule refl)
  show ?thesis
    unfolding generateCard_def t a drawField_cong [OF tw lf cf] cf
    by (rule refl)
qed

theorem generateCard_deterministic_witness:
  "loadImage loadingEnv ''./assets/water.png'' \<noteq> loadImage loadingEnv2 ''./assets/water.png''
   \<and> cardData demoGenerator \<noteq> cardData (demoGenerator\<lparr>cardData := [demoCard]\<rparr>)
   \<and> generateCard loadingEnv demoGenerator demoCard True =
       generateCard loadingEnv2 (demoGenerator\<lparr>cardData := [demoCard]\<rparr>) demoCard True"
proof -
  have h1: "config demoGenerator = config (demoGenerator\<lparr>cardData := [demoCard]\<rparr>)"
    by simp
  have h2: "loadedFonts demoGenerator = loadedFonts (demoGenerator\<lparr>cardData := [demoCard]\<rparr>)"
    by simp
  have h3: "textWidth loadingEnv = textWidth loadingEnv2"
    by (simp add: loadingEnv_def loadingEnv2_def)
  have h4: "loadImage loadingEnv
              (getTemplatePathForElement loadingEnv demoGenerator (Element demoCard)) =
            loadImage loadingEnv2
              (getTemplatePathForElement loadingEnv2
                 (demoGenerator\<lparr>cardData := [demoCard]\<rparr>) (Element demoCard))"
    by (simp add: loadingEnv_def loadingEnv2_def failingEnv_def getTemplatePathForElement_def
        demoGenerator_def demoConfig_def demoCard_def)
  have h5: "loadImage loadingEnv (getImageUrlFromAddress (Address demoCard)) =
            loadImage loadingEnv2 (getImageUrlFromAddress (Address demoCard))"
    by (simp add: loadingEnv_def loadingEnv2_def failingEnv_def getImageUrlFromAddress_def
        demoCard_def)
  have d1: "loadImage loadingEnv ''./assets/water.png'' \<noteq>
            loadImage loadingEnv2 ''./assets/water.png''"
    by (simp add: loadingEnv_def loadingEnv2_def failingEnv_def getImageUrlFromAddress_def)
  have d2: "cardData demoGenerator \<noteq> cardData (demoGenerator\<lparr>cardData := [demoCard]\<rparr>)"
    by (simp add: demoGenerator_def)
  from generateCard_deterministic [OF h1 h2 h3 h4 h5, of True] d1 d2
  show ?thesis by (intro conjI)
qed


end
